theory Spec2Isabelle
  imports Complex_Main
begin

section \<open>Data model (types.ts)\<close>

text \<open>
  Timestamps are the integer millisecond counts that \<open>Date.getTime()\<close> returns.
  Quotients of millisecond differences are exact rationals; the source computes them in
  double precision, which is exact on every difference of two real dates up to far
  beyond the lifetime of a session.
\<close>

datatype PatronCategory = Student | AcademicStaff | NonAcademicStaff | ExternalVisitor

record Patron =
  id_patron :: string
  category :: PatronCategory
  name :: string
  photo :: "string option"

record Session =
  id_session :: string
  studentId :: string
  studentName :: "string option"
  checkIn :: int
  checkOut :: "int option"
  duration :: "int option"
  notes_session :: "string option"
  alertTriggered :: "bool option"

record NotificationSettings =
  enabled :: bool
  email :: string
  thresholdMinutes :: int

record AppSettings =
  dailyCapacity :: int
  aiInsightsEnabled :: bool
  autoCheckoutEnabled :: bool
  autoCheckoutHours :: int
  notifications :: NotificationSettings

datatype SyncStatus = online | syncing | offline | error

text \<open>
  A row of the remote \<open>sessions\<close> table (the SQL script in lib/supabase.ts). The remote
  store is an external collaborator; the model keeps the table as a list of rows, with
  insert and update-by-id as the client calls them.
\<close>

record Row =
  id_row :: string
  patron_id :: string
  check_in :: int
  check_out :: "int option"
  duration_row :: "int option"
  notes_row :: "string option"
  alert_triggered :: "bool option"

text \<open>
  The state of the \<open>App\<close> component that the lifecycle functions read and write,
  together with the remote table. \<open>isSupabaseConfigured\<close> is a module constant
  of lib/supabase.ts; it is carried in the record so that every function can read it,
  and nothing writes it. \<open>activeSessionsRef.current\<close> mirrors \<open>activeSessions\<close>
  (the effect of App.tsx line 201), so the model reads \<open>activeSessions\<close> for both.
  The mirror, and the \<open>activeSessions\<close> that the closure of \<open>handleCheckIn\<close> holds,
  are those of the last render: the model describes operations that each start after the
  render that follows the previous one, and says nothing of two calls made from one render.
\<close>

record Store =
  patrons :: "Patron list"
  activeSessions :: "Session list"
  sessionHistory :: "Session list"
  todaySessions :: "Session list"
  demoMode :: bool
  isSupabaseConfigured :: bool
  syncStatus :: SyncStatus
  syncError :: "string option"
  remote :: "Row list"

section \<open>JavaScript primitives\<close>

text \<open>\<open>Math.round\<close>: the nearest integer, a tie going towards plus infinity.\<close>

definition Math_round :: "rat \<Rightarrow> int" where
  "Math_round x = \<lfloor>x + 1 / 2\<rfloor>"

text \<open>\<open>Math.floor\<close>.\<close>

definition Math_floor :: "rat \<Rightarrow> int" where
  "Math_floor x = \<lfloor>x\<rfloor>"

text \<open>\<open>a || b\<close> on an optional string: the empty string and \<open>undefined\<close> are falsy.\<close>

definition or_default :: "string option \<Rightarrow> string \<Rightarrow> string" where
  "or_default a b = (case a of None \<Rightarrow> b | Some v \<Rightarrow> if v = [] then b else v)"

text \<open>\<open>!x\<close> on an optional boolean is false only for \<open>true\<close>.\<close>

definition truthy :: "bool option \<Rightarrow> bool" where
  "truthy b = (b = Some True)"

text \<open>The decimal text of an integer, as a template literal prints a number.\<close>

fun show_nat :: "nat \<Rightarrow> string" where
  "show_nat n =
     (if n < 10 then [''0123456789'' ! n]
      else show_nat (n div 10) @ [''0123456789'' ! (n mod 10)])"

declare show_nat.simps [simp del]

definition show_int :: "int \<Rightarrow> string" where
  "show_int i = (if i < 0 then CHR ''-'' # show_nat (nat (- i)) else show_nat (nat i))"

section \<open>Session lifecycle (App.tsx)\<close>

text \<open>
  The remote \<open>update(...).eq('id', sessionId)\<close> of \<open>handleCheckOut\<close>: every row
  with that id gets the three columns.
\<close>

definition remote_close :: "string \<Rightarrow> int \<Rightarrow> int \<Rightarrow> string \<Rightarrow> Row list \<Rightarrow> Row list" where
  "remote_close sessionId t d n rows =
     map (\<lambda>r. if id_row r = sessionId
              then r\<lparr>check_out := Some t, duration_row := Some d, notes_row := Some n\<rparr>
              else r) rows"

text \<open>
  The body of the \<open>try\<close> block of \<open>handleCheckOut\<close> (lines 317 to 334).
  \<open>checkOutTime\<close> is what \<open>new Date()\<close> returns there, \<open>updateError\<close> the
  \<open>error\<close> that the remote update returns (\<open>None\<close> when it succeeds); the block
  throws exactly that error.
\<close>

definition checkOutBody ::
  "int \<Rightarrow> string option \<Rightarrow> string \<Rightarrow> string option \<Rightarrow> Session \<Rightarrow> Store \<Rightarrow> string + Store" where
  "checkOutBody checkOutTime updateError sessionId notes' sessionToClose st =
     (let duration' = Math_round (of_int (checkOutTime - checkIn sessionToClose) / 60000)
      in if \<not> demoMode st \<and> isSupabaseConfigured st then
           (case updateError of
              Some e \<Rightarrow> Inl e
            | None \<Rightarrow> Inr (st\<lparr>remote := remote_close sessionId checkOutTime (max 1 duration')
                                           (or_default notes' ''Manual Checkout'') (remote st)\<rparr>))
         else
           (let closedSession = sessionToClose\<lparr>checkOut := Some checkOutTime,
                                              duration := Some (max 1 duration'),
                                              notes_session := Some (or_default notes' ''Manual Checkout'')\<rparr>
            in Inr (st\<lparr>activeSessions := filter (\<lambda>s. id_session s \<noteq> sessionId) (activeSessions st),
                       sessionHistory := closedSession # sessionHistory st,
                       todaySessions := map (\<lambda>s. if id_session s = sessionId then closedSession else s)
                                            (todaySessions st)\<rparr>)))"

text \<open>\<open>handleCheckOut\<close> (lines 312 to 339): the lookup, the \<open>try\<close> block and its \<open>catch\<close>.\<close>

definition handleCheckOut ::
  "int \<Rightarrow> string option \<Rightarrow> string \<Rightarrow> string option \<Rightarrow> Store \<Rightarrow> Store" where
  "handleCheckOut checkOutTime updateError sessionId notes' st =
     (case find (\<lambda>s. id_session s = sessionId) (activeSessions st) of
        None \<Rightarrow> st
      | Some sessionToClose \<Rightarrow>
          (case checkOutBody checkOutTime updateError sessionId notes' sessionToClose st of
             Inl err \<Rightarrow> st\<lparr>syncStatus := error, syncError := Some err\<rparr>
           | Inr st' \<Rightarrow> st'))"

text \<open>
  \<open>handleCheckIn\<close> (lines 341 to 363). \<open>now\<close> is \<open>new Date()\<close> of line 343,
  \<open>dateNow\<close> is \<open>Date.now()\<close> of line 354; \<open>newRowId\<close> is the id the remote table
  gives the inserted row and \<open>insertError\<close> the \<open>error\<close> the insert returns.
  The inserted row takes the column defaults of the SQL script.
\<close>

definition handleCheckIn ::
  "int \<Rightarrow> int \<Rightarrow> string \<Rightarrow> string option \<Rightarrow> string \<Rightarrow> Store \<Rightarrow> Store" where
  "handleCheckIn now dateNow newRowId insertError studentId' st =
     (if list_ex (\<lambda>s. studentId s = studentId') (activeSessions st) then st
      else if \<not> demoMode st \<and> isSupabaseConfigured st then
        (case insertError of
           Some e \<Rightarrow> st\<lparr>syncStatus := error, syncError := Some e\<rparr>
         | None \<Rightarrow> st\<lparr>remote := remote st @
                        [\<lparr>id_row = newRowId, patron_id = studentId', check_in = now,
                          check_out = None, duration_row = None, notes_row = None,
                          alert_triggered = Some False\<rparr>]\<rparr>)
      else
        (let student = find (\<lambda>s. id_patron s = studentId') (patrons st);
             tempId = ''local-'' @ show_int dateNow;
             newSession = \<lparr>id_session = tempId, studentId = studentId',
                           studentName = map_option name student, checkIn = now,
                           checkOut = None, duration = None, notes_session = None,
                           alertTriggered = None\<rparr>
         in st\<lparr>activeSessions := activeSessions st @ [newSession],
               todaySessions := todaySessions st @ [newSession]\<rparr>))"

section \<open>Notification dispatcher (services/notificationService.ts)\<close>

text \<open>
  What the browser and the edge function do during one call of \<open>sendOverdueAlert\<close>:
  whether \<open>Notification\<close> exists in \<open>window\<close>, whether permission is granted,
  whether the constructor throws, and how \<open>supabase.functions.invoke\<close> ends. An
  exception is represented by its message.
\<close>

datatype InvokeOutcome = InvokeData | InvokeError string | InvokeRejected string

record NotifEnv =
  notificationInWindow :: bool
  permissionGranted :: bool
  notificationThrows :: "string option"
  invokeOutcome :: InvokeOutcome

text \<open>
  The observable effects of the dispatcher: a browser notification (its body and icon; the
  title is a constant), the call of the edge function with the four fields of its body,
  and the three kinds of console output.
\<close>

datatype Effect =
    BrowserNotification string string
  | EdgeFunctionInvoke string string int string
  | ConsoleLog
  | ConsoleWarn string
  | ConsoleError string

text \<open>\<open>a % b\<close> of JavaScript: the remainder takes the sign of the dividend.\<close>

definition js_rem :: "int \<Rightarrow> int \<Rightarrow> int" where
  "js_rem a b = sgn a * (\<bar>a\<bar> mod \<bar>b\<bar>)"

text \<open>
  A statement that may throw: the effects it had, and either the message of the exception
  (\<open>Inl\<close>) or normal completion.
\<close>

type_synonym stmt = "Effect list \<times> (string + unit)"

text \<open>Step 1 of \<open>sendOverdueAlert\<close> (lines 13 to 18).\<close>

definition browserNotification :: "NotifEnv \<Rightarrow> Patron \<Rightarrow> int \<Rightarrow> stmt" where
  "browserNotification env student durationMins =
     (if notificationInWindow env \<and> permissionGranted env then
        (case notificationThrows env of
           Some e \<Rightarrow> ([], Inl e)
         | None \<Rightarrow>
             ([BrowserNotification
                 (name student @ '' ('' @ id_patron student @ '') has been in the library for ''
                    @ show_int (Math_floor (of_int durationMins / 60)) @ ''h ''
                    @ show_int (js_rem durationMins 60) @ ''m.'')
                 (or_default (photo student) ''/favicon.ico'')], Inr ()))
      else ([], Inr ()))"

text \<open>Step 2 (lines 21 to 36): the inner \<open>try\<close> and its \<open>catch\<close>.\<close>

definition emailNotification :: "bool \<Rightarrow> NotifEnv \<Rightarrow> Patron \<Rightarrow> int \<Rightarrow> string \<Rightarrow> stmt" where
  "emailNotification configured env student durationMins librarianEmail =
     (if configured \<and> librarianEmail \<noteq> [] \<and> librarianEmail \<noteq> ''undefined'' then
        (let invoke = EdgeFunctionInvoke (name student) (id_patron student) durationMins librarianEmail;
             tried = (case invokeOutcome env of
                        InvokeRejected e \<Rightarrow> ([invoke], Inl e)
                      | InvokeError e \<Rightarrow> ([invoke], Inl e)
                      | InvokeData \<Rightarrow> ([invoke, ConsoleLog], Inr ()))
         in case tried of
              (fx, Inl e) \<Rightarrow> (fx @ [ConsoleWarn e], Inr ())
            | (fx, Inr u) \<Rightarrow> (fx, Inr u))
      else ([], Inr ()))"

text \<open>\<open>sendOverdueAlert\<close> (lines 10 to 41): both steps in the outer \<open>try\<close>, and its \<open>catch\<close>.\<close>

definition sendOverdueAlert :: "bool \<Rightarrow> NotifEnv \<Rightarrow> Patron \<Rightarrow> int \<Rightarrow> string \<Rightarrow> stmt" where
  "sendOverdueAlert configured env student durationMins librarianEmail =
     (let tried = (case browserNotification env student durationMins of
                     (fx, Inl e) \<Rightarrow> (fx, Inl e)
                   | (fx, Inr u) \<Rightarrow>
                       (case emailNotification configured env student durationMins librarianEmail of
                          (fx', r) \<Rightarrow> (fx @ fx', r)))
      in case tried of
           (fx, Inl e) \<Rightarrow> (fx @ [ConsoleError e], Inr ())
         | (fx, Inr u) \<Rightarrow> (fx, Inr u))"

section \<open>Overdue and auto-checkout monitor (App.tsx, lines 390 to 413)\<close>

text \<open>
  What the environment decides during one tick, per session id: the time \<open>new Date()\<close>
  gives inside \<open>handleCheckOut\<close>, the error of its remote update, the error of the remote
  update of \<open>alert_triggered\<close>; and, per patron id, the notification environment.
\<close>

record World =
  clockAt :: "string \<Rightarrow> int"
  closeError :: "string \<Rightarrow> string option"
  flagError :: "string \<Rightarrow> string option"
  notifEnv :: "string \<Rightarrow> NotifEnv"

text \<open>One call of the dispatcher by the monitor: the session, the three arguments, the effects.\<close>

datatype Alert = Alert Session Patron int string "Effect list"

text \<open>
  The outcome of a tick, or of a part of it: the store and the dispatcher calls made, and
  whether an exception (its message) ended it.
\<close>

datatype TickResult = Completed Store "Alert list" | Aborted string Store "Alert list"

text \<open>The remote \<open>update({ alert_triggered: true }).eq('id', session.id)\<close> of line 409.\<close>

definition remote_flag :: "string \<Rightarrow> Row list \<Rightarrow> Row list" where
  "remote_flag sessionId rows =
     map (\<lambda>r. if id_row r = sessionId then r\<lparr>alert_triggered := Some True\<rparr> else r) rows"

text \<open>
  The body of the \<open>for\<close> loop (lines 397 to 411). \<open>appSettings\<close>, \<open>patrons'\<close> and
  \<open>demoMode'\<close> are the values the closure of the effect captured. The result of the update
  of line 409 is not inspected by the source.
\<close>

definition processSession ::
  "World \<Rightarrow> AppSettings \<Rightarrow> Patron list \<Rightarrow> bool \<Rightarrow> int \<Rightarrow> Session \<Rightarrow> Store \<Rightarrow> TickResult" where
  "processSession w appSettings patrons' demoMode' now session st =
     (let durationMins = (of_int (now - checkIn session) / 60000 :: rat)
      in if durationMins < 0 then Completed st []
         else if autoCheckoutEnabled appSettings
                 \<and> durationMins \<ge> of_int (autoCheckoutHours appSettings * 60) then
           Completed (handleCheckOut (clockAt w (id_session session)) (closeError w (id_session session))
                        (id_session session) (Some ''Auto-Checkout: System Time Limit Reached'') st) []
         else if enabled (notifications appSettings) \<and> \<not> truthy (alertTriggered session)
                 \<and> durationMins \<ge> of_int (thresholdMinutes (notifications appSettings)) then
           (case find (\<lambda>p. id_patron p = studentId session) patrons' of
              None \<Rightarrow> Completed st []
            | Some patron \<Rightarrow>
                (case sendOverdueAlert (isSupabaseConfigured st) (notifEnv w (id_patron patron)) patron
                        (Math_floor durationMins) (email (notifications appSettings)) of
                   (fx, Inl e) \<Rightarrow> Aborted e st []
                 | (fx, Inr u) \<Rightarrow>
                     Completed
                       (if \<not> demoMode' then
                          (case flagError w (id_session session) of
                             Some e \<Rightarrow> st
                           | None \<Rightarrow> st\<lparr>remote := remote_flag (id_session session) (remote st)\<rparr>)
                        else st)
                       [Alert session patron (Math_floor durationMins)
                          (email (notifications appSettings)) fx]))
         else Completed st [])"

text \<open>The \<open>for\<close> loop: an exception in one iteration ends the loop.\<close>

fun monitor_loop ::
  "World \<Rightarrow> AppSettings \<Rightarrow> Patron list \<Rightarrow> bool \<Rightarrow> int \<Rightarrow> Session list \<Rightarrow> Store \<Rightarrow> Alert list
     \<Rightarrow> TickResult" where
  "monitor_loop w appSettings patrons' demoMode' now [] st tr = Completed st tr"
| "monitor_loop w appSettings patrons' demoMode' now (session # rest) st tr =
     (case processSession w appSettings patrons' demoMode' now session st of
        Aborted e st' tr' \<Rightarrow> Aborted e st' (tr @ tr')
      | Completed st' tr' \<Rightarrow> monitor_loop w appSettings patrons' demoMode' now rest st' (tr @ tr'))"

text \<open>\<open>monitor\<close>: one tick at time \<open>now\<close>.\<close>

definition monitor :: "World \<Rightarrow> AppSettings \<Rightarrow> int \<Rightarrow> Store \<Rightarrow> TickResult" where
  "monitor w appSettings now st =
     (let current = activeSessions st
      in if current = [] then Completed st []
         else monitor_loop w appSettings (patrons st) (demoMode st) now current st [])"

section \<open>Resynchronisation (App.tsx, fetchData)\<close>

definition MOCK_STUDENTS :: "Patron list" where
  "MOCK_STUDENTS =
     [\<lparr>id_patron = ''ST-001'', category = Student, name = ''John Doe'',
        photo = Some ''https://picsum.photos/seed/john/200''\<rparr>,
      \<lparr>id_patron = ''ST-002'', category = Student, name = ''Jane Smith'',
        photo = Some ''https://picsum.photos/seed/jane/200''\<rparr>,
      \<lparr>id_patron = ''AS-001'', category = AcademicStaff, name = ''Robert Brown'',
        photo = Some ''https://picsum.photos/seed/rob/200''\<rparr>,
      \<lparr>id_patron = ''NAS-001'', category = NonAcademicStaff, name = ''Emily Davis'',
        photo = Some ''https://picsum.photos/seed/emily/200''\<rparr>,
      \<lparr>id_patron = ''EV-001'', category = ExternalVisitor, name = ''Michael Wilson'',
        photo = Some ''https://picsum.photos/seed/mike/200''\<rparr>]"

text \<open>The three projections of a row (lines 245 to 272).\<close>

definition active_of_row :: "Row \<Rightarrow> Session" where
  "active_of_row r =
     \<lparr>id_session = id_row r, studentId = patron_id r, studentName = None, checkIn = check_in r,
      checkOut = None, duration = None, notes_session = None,
      alertTriggered = alert_triggered r\<rparr>"

definition history_of_row :: "Row \<Rightarrow> Session" where
  "history_of_row r =
     \<lparr>id_session = id_row r, studentId = patron_id r, studentName = None, checkIn = check_in r,
      checkOut = check_out r, duration = duration_row r, notes_session = notes_row r,
      alertTriggered = None\<rparr>"

text \<open>
  \<open>fetchData\<close>, as far as the sessions are concerned: the patrons and settings relations
  are not part of the model, and the fetched patrons and settings are left as they are.
  \<open>startOfDay\<close> is local midnight in milliseconds, \<open>fetchError\<close> the first error among
  the four session and patron queries. The history is the hundred rows closed last, the
  latest first. The passing status \<open>syncing\<close> of a fetch that is not silent is replaced by
  the final status before the function returns, and is left out.
\<close>

definition fetchData :: "int \<Rightarrow> string option \<Rightarrow> Store \<Rightarrow> Store" where
  "fetchData startOfDay fetchError st =
     (if demoMode st \<or> \<not> isSupabaseConfigured st then
        st\<lparr>patrons := (if patrons st = [] then MOCK_STUDENTS else patrons st),
           syncStatus := offline\<rparr>
      else
        (case fetchError of
           Some e \<Rightarrow> st\<lparr>syncStatus := error, syncError := Some e\<rparr>
         | None \<Rightarrow>
             st\<lparr>activeSessions := map active_of_row (filter (\<lambda>r. check_out r = None) (remote st)),
                sessionHistory :=
                  map history_of_row
                    (take 100 (rev (sort_key (\<lambda>r. case check_out r of Some t \<Rightarrow> t | None \<Rightarrow> 0)
                                      (filter (\<lambda>r. check_out r \<noteq> None) (remote st))))),
                todaySessions :=
                  map history_of_row (filter (\<lambda>r. check_in r \<ge> startOfDay) (remote st)),
                syncStatus := online\<rparr>))"

section \<open>Occupancy (components/Dashboard.tsx, lines 66 to 69)\<close>

text \<open>
  A JavaScript number that may be \<open>NaN\<close>. Division by a zero capacity gives \<open>NaN\<close>
  for a zero count and plus infinity otherwise, and \<open>Math.min\<close> returns \<open>NaN\<close> for the
  first and \<open>100\<close> for the second. For any other capacity the quotient is taken as the
  exact rational, of which the source holds the nearest double.
\<close>

datatype number = NaN | Num rat

definition activeTotal :: "Session list \<Rightarrow> int" where
  "activeTotal activeSessions' = int (length activeSessions')"

definition remainingSeats :: "AppSettings \<Rightarrow> Session list \<Rightarrow> int" where
  "remainingSeats appSettings activeSessions' =
     (let capacity = dailyCapacity appSettings
      in max 0 (capacity - int (length activeSessions')))"

definition occupancyPercentage :: "AppSettings \<Rightarrow> Session list \<Rightarrow> number" where
  "occupancyPercentage appSettings activeSessions' =
     (let capacity = dailyCapacity appSettings
      in if capacity = 0 then (if length activeSessions' = 0 then NaN else Num 100)
         else Num (min (of_nat (length activeSessions') / of_int capacity * 100) 100))"

section \<open>Runs of the store\<close>

text \<open>
  An operation on the store with everything the environment contributes to it, and a
  run: operations applied one after the other, each one finished before the next starts.
\<close>

datatype Op =
    CheckIn int int string "string option" string
  | CheckOut int "string option" string "string option"
  | Tick World AppSettings int
  | Fetch int "string option"

fun store_of :: "TickResult \<Rightarrow> Store" where
  "store_of (Completed st tr) = st"
| "store_of (Aborted e st tr) = st"

fun alerts_of :: "TickResult \<Rightarrow> Alert list" where
  "alerts_of (Completed st tr) = tr"
| "alerts_of (Aborted e st tr) = tr"

fun step :: "Op \<Rightarrow> Store \<Rightarrow> Store" where
  "step (CheckIn now dateNow newRowId insertError studentId') st =
     handleCheckIn now dateNow newRowId insertError studentId' st"
| "step (CheckOut checkOutTime updateError sessionId notes') st =
     handleCheckOut checkOutTime updateError sessionId notes' st"
| "step (Tick w appSettings now) st = store_of (monitor w appSettings now st)"
| "step (Fetch startOfDay fetchError) st = fetchData startOfDay fetchError st"

fun run :: "Op list \<Rightarrow> Store \<Rightarrow> Store" where
  "run [] st = st"
| "run (op # ops) st = run ops (step op st)"

text \<open>
  The store once the component has mounted and the mode is decided (lines 184 to 198 and
  the \<open>init\<close> effect): no local sessions yet, whatever mode, patrons and remote rows.
\<close>

definition initStore :: "bool \<Rightarrow> bool \<Rightarrow> Patron list \<Rightarrow> Row list \<Rightarrow> Store" where
  "initStore configured demo ps rows =
     \<lparr>patrons = ps, activeSessions = [], sessionHistory = [], todaySessions = [],
      demoMode = demo, isSupabaseConfigured = configured,
      syncStatus = online, syncError = None, remote = rows\<rparr>"

section \<open>Notions used by the properties\<close>

text \<open>
  The local branch of \<open>handleCheckIn\<close> and \<open>handleCheckOut\<close> is taken in demo mode
  and whenever the remote store is not configured; the remote branch otherwise.
\<close>

definition local_mode :: "Store \<Rightarrow> bool" where
  "local_mode st = (demoMode st \<or> \<not> isSupabaseConfigured st)"

text \<open>The duration rule in the words of the specification.\<close>

definition spec_duration :: "int \<Rightarrow> int \<Rightarrow> int" where
  "spec_duration now checkIn' = max 1 (round (of_int (now - checkIn') / 60000 :: rat))"

text \<open>A session closed at time \<open>t\<close> with the optional notes \<open>n\<close>.\<close>

definition closed_copy :: "int \<Rightarrow> string option \<Rightarrow> Session \<Rightarrow> Session" where
  "closed_copy t n s =
     s\<lparr>checkOut := Some t, duration := Some (spec_duration t (checkIn s)),
       notes_session := Some (or_default n ''Manual Checkout'')\<rparr>"

text \<open>Elapsed minutes of a session at a tick, and the two policies of the monitor.\<close>

definition elapsedMinutes :: "int \<Rightarrow> Session \<Rightarrow> rat" where
  "elapsedMinutes now s = of_int (now - checkIn s) / 60000"

definition autoCheckoutDue :: "AppSettings \<Rightarrow> int \<Rightarrow> Session \<Rightarrow> bool" where
  "autoCheckoutDue cfg now s =
     (0 \<le> elapsedMinutes now s \<and> autoCheckoutEnabled cfg
      \<and> of_int (autoCheckoutHours cfg * 60) \<le> elapsedMinutes now s)"

definition alertDue :: "AppSettings \<Rightarrow> int \<Rightarrow> Session \<Rightarrow> bool" where
  "alertDue cfg now s =
     (0 \<le> elapsedMinutes now s \<and> \<not> autoCheckoutDue cfg now s
      \<and> enabled (notifications cfg) \<and> \<not> truthy (alertTriggered s)
      \<and> of_int (thresholdMinutes (notifications cfg)) \<le> elapsedMinutes now s)"

text \<open>
  The dispatcher calls a tick owes one session: none unless the alert is due and the
  patron is found, and then one, whatever the dispatch itself does.
\<close>

definition alertsFor ::
  "World \<Rightarrow> AppSettings \<Rightarrow> Patron list \<Rightarrow> bool \<Rightarrow> int \<Rightarrow> Session \<Rightarrow> Alert list" where
  "alertsFor w cfg ps configured now s =
     (if alertDue cfg now s then
        (case find (\<lambda>p. id_patron p = studentId s) ps of
           None \<Rightarrow> []
         | Some p \<Rightarrow>
             [Alert s p \<lfloor>elapsedMinutes now s\<rfloor> (email (notifications cfg))
                (fst (sendOverdueAlert configured (notifEnv w (id_patron p)) p
                        \<lfloor>elapsedMinutes now s\<rfloor> (email (notifications cfg))))])
      else [])"

fun alert_session :: "Alert \<Rightarrow> Session" where
  "alert_session (Alert s p m e fx) = s"

text \<open>
  At most one active session for each patron, in the local list and among the open rows
  of the remote table.
\<close>

definition open_rows :: "Row list \<Rightarrow> Row list" where
  "open_rows rows = filter (\<lambda>r. check_out r = None) rows"

definition one_active_per_patron :: "Store \<Rightarrow> bool" where
  "one_active_per_patron st =
     (distinct (map studentId (filter (\<lambda>s. checkOut s = None) (activeSessions st)))
      \<and> distinct (map patron_id (open_rows (remote st))))"

text \<open>The local list of active sessions is the projection of the open remote rows.\<close>

definition in_sync :: "Store \<Rightarrow> bool" where
  "in_sync st = (activeSessions st = map active_of_row (open_rows (remote st)))"

text \<open>
  A run in which every operation is directly followed by a successful resynchronisation
  (\<open>fetchData\<close> returning without error), given with its start of day.
\<close>

fun run_resynced :: "(Op \<times> int) list \<Rightarrow> Store \<Rightarrow> Store" where
  "run_resynced [] st = st"
| "run_resynced ((op, startOfDay) # ops) st = run_resynced ops (fetchData startOfDay None (step op st))"

text \<open>Every session of the active list is open and every session of the history is closed.\<close>

definition open_and_closed :: "Store \<Rightarrow> bool" where
  "open_and_closed st =
     (list_all (\<lambda>s. checkOut s = None) (activeSessions st)
      \<and> list_all (\<lambda>s. checkOut s \<noteq> None) (sessionHistory st))"

subsection \<open>Example data\<close>

definition DEFAULT_SETTINGS :: AppSettings where
  "DEFAULT_SETTINGS =
     \<lparr>dailyCapacity = 120, aiInsightsEnabled = True, autoCheckoutEnabled = False,
      autoCheckoutHours = 12,
      notifications = \<lparr>enabled = True, email = ''bhfnmtclibrary@gmail.com'',
                       thresholdMinutes = 180\<rparr>\<rparr>"

text \<open>Settings under which an alert is due at once, and under which a session ends after an hour.\<close>

definition eagerSettings :: AppSettings where
  "eagerSettings =
     DEFAULT_SETTINGS\<lparr>notifications := \<lparr>enabled = True, email = ''bhfnmtclibrary@gmail.com'',
                                          thresholdMinutes = 0\<rparr>\<rparr>"

definition hourSettings :: AppSettings where
  "hourSettings = DEFAULT_SETTINGS\<lparr>autoCheckoutEnabled := True, autoCheckoutHours := 1\<rparr>"

definition patronX :: Patron where
  "patronX = \<lparr>id_patron = ''ST-001'', category = Student, name = ''John Doe'',
               photo = Some ''https://picsum.photos/seed/john/200''\<rparr>"

definition patronY :: Patron where
  "patronY = \<lparr>id_patron = ''ST-002'', category = Student, name = ''Jane Smith'',
               photo = Some ''https://picsum.photos/seed/jane/200''\<rparr>"

definition sessionX :: Session where
  "sessionX = \<lparr>id_session = ''local-0'', studentId = ''ST-001'', studentName = Some ''John Doe'',
                checkIn = 0, checkOut = None, duration = None, notes_session = None,
                alertTriggered = None\<rparr>"

definition sessionY :: Session where
  "sessionY = \<lparr>id_session = ''local-60000'', studentId = ''ST-002'',
                studentName = Some ''Jane Smith'', checkIn = 60000, checkOut = None,
                duration = None, notes_session = None, alertTriggered = None\<rparr>"

definition demoStore :: Store where
  "demoStore =
     \<lparr>patrons = MOCK_STUDENTS, activeSessions = [sessionX, sessionY], sessionHistory = [],
      todaySessions = [sessionX, sessionY], demoMode = True, isSupabaseConfigured = True,
      syncStatus = online, syncError = None, remote = []\<rparr>"

text \<open>The demo store with the first patron missing from the registry.\<close>

definition orphanStore :: Store where
  "orphanStore = demoStore\<lparr>patrons := [patronY]\<rparr>"

text \<open>The demo store with the first session only, and settings with two seats, one and none.\<close>

definition soloStore :: Store where
  "soloStore = demoStore\<lparr>activeSessions := [sessionX], todaySessions := [sessionX]\<rparr>"

definition twoSeats :: AppSettings where
  "twoSeats = DEFAULT_SETTINGS\<lparr>dailyCapacity := 2\<rparr>"

definition oneSeat :: AppSettings where
  "oneSeat = DEFAULT_SETTINGS\<lparr>dailyCapacity := 1\<rparr>"

definition noSeat :: AppSettings where
  "noSeat = DEFAULT_SETTINGS\<lparr>dailyCapacity := 0\<rparr>"

definition rowX :: Row where
  "rowX = \<lparr>id_row = ''row-1'', patron_id = ''ST-001'', check_in = 0, check_out = None,
            duration_row = None, notes_row = None, alert_triggered = Some False\<rparr>"

definition cloudSessionX :: Session where
  "cloudSessionX = \<lparr>id_session = ''row-1'', studentId = ''ST-001'', studentName = None,
                     checkIn = 0, checkOut = None, duration = None, notes_session = None,
                     alertTriggered = Some False\<rparr>"

definition cloudStore :: Store where
  "cloudStore =
     \<lparr>patrons = MOCK_STUDENTS, activeSessions = [cloudSessionX], sessionHistory = [],
      todaySessions = [], demoMode = False, isSupabaseConfigured = True,
      syncStatus = online, syncError = None, remote = [rowX]\<rparr>"

text \<open>
  A world in which every clock reading is \<open>t\<close> and nothing fails, and one in which the
  browser notification throws and the edge function rejects.
\<close>

definition calmWorld :: "int \<Rightarrow> World" where
  "calmWorld t =
     \<lparr>clockAt = (\<lambda>sid. t), closeError = (\<lambda>sid. None), flagError = (\<lambda>sid. None),
      notifEnv = (\<lambda>pid. \<lparr>notificationInWindow = True, permissionGranted = True,
                          notificationThrows = None, invokeOutcome = InvokeData\<rparr>)\<rparr>"

definition failingWorld :: "int \<Rightarrow> World" where
  "failingWorld t =
     \<lparr>clockAt = (\<lambda>sid. t), closeError = (\<lambda>sid. None), flagError = (\<lambda>sid. None),
      notifEnv = (\<lambda>pid. \<lparr>notificationInWindow = True, permissionGranted = True,
                          notificationThrows = Some ''Illegal constructor'',
                          invokeOutcome = InvokeRejected ''Failed to fetch''\<rparr>)\<rparr>"

section \<open>Auxiliary facts\<close>

lemma demoStore_reached:
  "run [CheckIn 0 0 ''r1'' None ''ST-001'', CheckIn 60000 60000 ''r2'' None ''ST-002'']
     (initStore True True MOCK_STUDENTS []) = demoStore"
  by (simp add: handleCheckIn_def initStore_def MOCK_STUDENTS_def show_int_def show_nat.simps
       demoStore_def sessionX_def sessionY_def Let_def)

lemma Math_round_round: "Math_round x = round x"
  by (simp add: Math_round_def round_def)

lemma find_distinct_key:
  "distinct (map f xs) \<Longrightarrow> s \<in> set xs \<Longrightarrow> find (\<lambda>x. f x = f s) xs = Some s"
  by (induction xs) (auto simp: image_iff)

lemma filter_distinct_key:
  "distinct (map f xs) \<Longrightarrow> s \<in> set xs \<Longrightarrow> filter (\<lambda>x. f x \<noteq> f s) xs = remove1 s xs"
proof (induction xs)
  case Nil
  then show ?case by simp
next
  case (Cons a xs)
  show ?case
  proof (cases "a = s")
    case True
    then have "\<forall>x \<in> set xs. f x \<noteq> f s" using Cons.prems by (auto simp: image_iff)
    then have "filter (\<lambda>x. f x \<noteq> f s) xs = xs" by (simp add: filter_id_conv)
    then show ?thesis using True by simp
  next
    case False
    then have "f a \<noteq> f s" using Cons.prems by (auto simp: image_iff)
    then show ?thesis using False Cons by simp
  qed
qed

lemmas find_distinct_id = find_distinct_key [where f = id_session]
lemmas filter_distinct_id = filter_distinct_key [where f = id_session]

lemma find_None_id: "sessionId \<notin> id_session ` set xs \<Longrightarrow> find (\<lambda>s. id_session s = sessionId) xs = None"
  by (induction xs) auto

lemma find_Some_id: "sessionId \<in> id_session ` set xs \<Longrightarrow> \<exists>s. find (\<lambda>s. id_session s = sessionId) xs = Some s"
  by (induction xs) auto

lemma handleCheckOut_not_found:
  "find (\<lambda>s. id_session s = sid) (activeSessions st) = None \<Longrightarrow> handleCheckOut t e sid n st = st"
  by (simp add: handleCheckOut_def)

lemma handleCheckOut_local:
  "local_mode st \<Longrightarrow> find (\<lambda>s. id_session s = sid) (activeSessions st) = Some s \<Longrightarrow>
   handleCheckOut t e sid n st =
     st\<lparr>activeSessions := filter (\<lambda>x. id_session x \<noteq> sid) (activeSessions st),
        sessionHistory := closed_copy t n s # sessionHistory st,
        todaySessions := map (\<lambda>x. if id_session x = sid then closed_copy t n s else x) (todaySessions st)\<rparr>"
  by (auto simp: handleCheckOut_def checkOutBody_def local_mode_def Let_def closed_copy_def
        spec_duration_def Math_round_round)

lemma handleCheckOut_connected:
  "\<not> local_mode st \<Longrightarrow> find (\<lambda>s. id_session s = sid) (activeSessions st) = Some s \<Longrightarrow>
   handleCheckOut t None sid n st =
     st\<lparr>remote := remote_close sid t (spec_duration t (checkIn s)) (or_default n ''Manual Checkout'') (remote st)\<rparr>"
  by (auto simp: handleCheckOut_def checkOutBody_def local_mode_def Let_def
        spec_duration_def Math_round_round)

lemma handleCheckOut_connected_error:
  "\<not> local_mode st \<Longrightarrow> find (\<lambda>s. id_session s = sid) (activeSessions st) = Some s \<Longrightarrow>
   handleCheckOut t (Some e) sid n st = st\<lparr>syncStatus := error, syncError := Some e\<rparr>"
  by (auto simp: handleCheckOut_def checkOutBody_def local_mode_def Let_def)

lemma open_after_close:
  "filter (\<lambda>r. check_out r = None) (remote_close sid t d n rows)
     = filter (\<lambda>r. id_row r \<noteq> sid) (filter (\<lambda>r. check_out r = None) rows)"
  by (induction rows) (auto simp: remote_close_def)

text \<open>
  Claim C5, evaluated. Connected mode, empty remote table, patron ST-001. The first
  check-in inserts an open row for the patron, who therefore has an active session, and
  leaves the local list of active sessions as it was: in this mode only a
  resynchronisation writes that list. A second check-in of the same patron before the
  resynchronisation passes the guard of line 342, which reads the local list, and inserts
  a second open row for the patron. The call is not a no-op.
\<close>

theorem connected_second_checkIn_inserts:
  "map patron_id (open_rows (remote
       (handleCheckIn 0 0 ''row-1'' None ''ST-001'' (initStore True False MOCK_STUDENTS []))))
     = [''ST-001'']
   \<and> activeSessions (handleCheckIn 0 0 ''row-1'' None ''ST-001'' (initStore True False MOCK_STUDENTS []))
       = []
   \<and> handleCheckIn 1000 1000 ''row-2'' None ''ST-001''
         (handleCheckIn 0 0 ''row-1'' None ''ST-001'' (initStore True False MOCK_STUDENTS []))
       \<noteq> handleCheckIn 0 0 ''row-1'' None ''ST-001'' (initStore True False MOCK_STUDENTS [])
   \<and> map id_row (open_rows (remote
         (handleCheckIn 1000 1000 ''row-2'' None ''ST-001''
            (handleCheckIn 0 0 ''row-1'' None ''ST-001'' (initStore True False MOCK_STUDENTS [])))))
       = [''row-1'', ''row-2'']
   \<and> map patron_id (open_rows (remote
         (handleCheckIn 1000 1000 ''row-2'' None ''ST-001''
            (handleCheckIn 0 0 ''row-1'' None ''ST-001'' (initStore True False MOCK_STUDENTS [])))))
       = [''ST-001'', ''ST-001'']"
proof -
  have st1: "handleCheckIn 0 0 ''row-1'' None ''ST-001'' (initStore True False MOCK_STUDENTS [])
    = (initStore True False MOCK_STUDENTS [])\<lparr>remote :=
        [\<lparr>id_row = ''row-1'', patron_id = ''ST-001'', check_in = 0, check_out = None,
          duration_row = None, notes_row = None, alert_triggered = Some False\<rparr>]\<rparr>"
    by (simp add: handleCheckIn_def initStore_def)
  have st2: "handleCheckIn 1000 1000 ''row-2'' None ''ST-001''
       ((initStore True False MOCK_STUDENTS [])\<lparr>remote :=
        [\<lparr>id_row = ''row-1'', patron_id = ''ST-001'', check_in = 0, check_out = None,
          duration_row = None, notes_row = None, alert_triggered = Some False\<rparr>]\<rparr>)
    = (initStore True False MOCK_STUDENTS [])\<lparr>remote :=
        [\<lparr>id_row = ''row-1'', patron_id = ''ST-001'', check_in = 0, check_out = None,
          duration_row = None, notes_row = None, alert_triggered = Some False\<rparr>,
         \<lparr>id_row = ''row-2'', patron_id = ''ST-001'', check_in = 1000, check_out = None,
          duration_row = None, notes_row = None, alert_triggered = Some False\<rparr>]\<rparr>"
    by (simp add: handleCheckIn_def initStore_def)
  show ?thesis
    unfolding st1 st2 by (simp add: initStore_def open_rows_def)
qed

text \<open>
  What the lookup of lines 313 and 314 does give. A check-out with an id that no session
  of the local list has returns the store it was given. A second check-out of one id
  changes nothing in the local mode, where the first has removed the session from the
  list, and in the connected mode once the first has been resynchronised.
\<close>

lemma checkOut_not_found_noop:
  "(sessionId \<notin> id_session ` set (activeSessions st)
      \<longrightarrow> handleCheckOut t e sessionId n st = st)
   \<and> (local_mode st
      \<longrightarrow> handleCheckOut t2 e2 sessionId n2 (handleCheckOut t1 e1 sessionId n1 st)
          = handleCheckOut t1 e1 sessionId n1 st)
   \<and> (\<not> local_mode st \<and> sessionId \<in> id_session ` set (activeSessions st)
      \<longrightarrow> handleCheckOut t2 e2 sessionId n2 (fetchData sod None (handleCheckOut t1 None sessionId n1 st))
          = fetchData sod None (handleCheckOut t1 None sessionId n1 st))"
proof (intro conjI impI)
  assume "sessionId \<notin> id_session ` set (activeSessions st)"
  then show "handleCheckOut t e sessionId n st = st"
    by (simp add: handleCheckOut_not_found find_None_id)
next
  assume loc: "local_mode st"
  let ?st1 = "handleCheckOut t1 e1 sessionId n1 st"
  have "sessionId \<notin> id_session ` set (activeSessions ?st1)"
  proof (cases "find (\<lambda>s. id_session s = sessionId) (activeSessions st)")
    case None
    then show ?thesis by (auto simp: handleCheckOut_not_found find_None_iff)
  next
    case (Some s)
    then show ?thesis using loc by (auto simp: handleCheckOut_local)
  qed
  then show "handleCheckOut t2 e2 sessionId n2 ?st1 = ?st1"
    by (simp add: handleCheckOut_not_found find_None_id)
next
  assume "\<not> local_mode st \<and> sessionId \<in> id_session ` set (activeSessions st)"
  then have con: "\<not> local_mode st" and "sessionId \<in> id_session ` set (activeSessions st)" by auto
  then obtain s where s: "find (\<lambda>s. id_session s = sessionId) (activeSessions st) = Some s"
    using find_Some_id by blast
  let ?st1 = "fetchData sod None (handleCheckOut t1 None sessionId n1 st)"
  have "sessionId \<notin> id_session ` set (activeSessions ?st1)"
    using con by (auto simp: handleCheckOut_connected [OF con s] fetchData_def local_mode_def
        open_after_close active_of_row_def)
  then show "handleCheckOut t2 e2 sessionId n2 ?st1 = ?st1"
    by (simp add: handleCheckOut_not_found find_None_id)
qed


subsection \<open>The dispatcher and the loop\<close>

lemma sendOverdueAlert_returns: "snd (sendOverdueAlert c env p d e) = Inr ()"
  by (auto simp: sendOverdueAlert_def browserNotification_def emailNotification_def Let_def
        split: option.splits InvokeOutcome.splits prod.splits sum.splits)

lemma handleCheckOut_modes [simp]:
  "demoMode (handleCheckOut t e sid n st) = demoMode st"
  "isSupabaseConfigured (handleCheckOut t e sid n st) = isSupabaseConfigured st"
  "patrons (handleCheckOut t e sid n st) = patrons st"
  by (auto simp: handleCheckOut_def checkOutBody_def Let_def split: option.splits)

lemma handleCheckOut_local_mode [simp]: "local_mode (handleCheckOut t e sid n st) = local_mode st"
  by (simp add: local_mode_def)


lemma processSession_auto:
  "autoCheckoutDue cfg now s \<Longrightarrow>
   processSession w cfg ps dm now s st =
     Completed (handleCheckOut (clockAt w (id_session s)) (closeError w (id_session s)) (id_session s)
                  (Some ''Auto-Checkout: System Time Limit Reached'') st) []"
  by (simp add: processSession_def autoCheckoutDue_def elapsedMinutes_def Let_def)

lemma sendOverdueAlert_case:
  "(case sendOverdueAlert c env p d e of (fx, Inl x) \<Rightarrow> A fx x | (fx, Inr u) \<Rightarrow> B fx u)
     = B (fst (sendOverdueAlert c env p d e)) ()"
proof (cases "sendOverdueAlert c env p d e")
  case (Pair fx r)
  then have "r = Inr ()" using sendOverdueAlert_returns [of c env p d e] by simp
  with Pair show ?thesis by simp
qed

lemma processSession_other:
  "\<not> autoCheckoutDue cfg now s \<Longrightarrow>
   processSession w cfg ps dm now s st =
     Completed
       (if alertDue cfg now s \<and> find (\<lambda>p. id_patron p = studentId s) ps \<noteq> None \<and> \<not> dm
           \<and> flagError w (id_session s) = None
        then st\<lparr>remote := remote_flag (id_session s) (remote st)\<rparr> else st)
       (alertsFor w cfg ps (isSupabaseConfigured st) now s)"
  unfolding processSession_def alertsFor_def alertDue_def autoCheckoutDue_def
  by (auto simp: sendOverdueAlert_case elapsedMinutes_def Let_def Math_floor_def not_le not_less
        split: option.splits)

lemma alertsFor_auto: "autoCheckoutDue cfg now s \<Longrightarrow> alertsFor w cfg ps c now s = []"
  by (simp add: alertsFor_def alertDue_def)

lemma processSession_alerts:
  "alerts_of (processSession w cfg ps dm now s st) = alertsFor w cfg ps (isSupabaseConfigured st) now s"
  by (cases "autoCheckoutDue cfg now s") (simp_all add: processSession_auto processSession_other alertsFor_auto)

lemma processSession_completes:
  "\<exists>st'. processSession w cfg ps dm now s st
          = Completed st' (alertsFor w cfg ps (isSupabaseConfigured st) now s)
        \<and> isSupabaseConfigured st' = isSupabaseConfigured st"
  by (cases "autoCheckoutDue cfg now s") (simp_all add: processSession_auto processSession_other alertsFor_auto)

lemma monitor_loop_completes:
  "\<exists>st'. monitor_loop w cfg ps dm now ss st tr
          = Completed st' (tr @ concat (map (alertsFor w cfg ps (isSupabaseConfigured st) now) ss))
        \<and> isSupabaseConfigured st' = isSupabaseConfigured st"
proof (induction ss arbitrary: st tr)
  case Nil
  then show ?case by simp
next
  case (Cons s ss)
  obtain st1 where st1: "processSession w cfg ps dm now s st
          = Completed st1 (alertsFor w cfg ps (isSupabaseConfigured st) now s)"
      "isSupabaseConfigured st1 = isSupabaseConfigured st"
    using processSession_completes by blast
  from Cons.IH [of st1 "tr @ alertsFor w cfg ps (isSupabaseConfigured st) now s"] st1
  show ?case by auto
qed

lemma monitor_completes:
  "\<exists>st'. monitor w cfg now st
          = Completed st' (concat (map (alertsFor w cfg (patrons st) (isSupabaseConfigured st) now)
                                     (activeSessions st)))"
  using monitor_loop_completes [of w cfg "patrons st" "demoMode st" now "activeSessions st" st "[]"]
  by (auto simp: monitor_def Let_def)


text \<open>A property kept by the two kinds of store update is kept by the loop.\<close>

lemma processSession_invariant:
  assumes "P st"
    and "\<And>st t e sid n. P st \<Longrightarrow> P (handleCheckOut t e sid n st)"
    and "\<And>st sid. P st \<Longrightarrow> P (st\<lparr>remote := remote_flag sid (remote st)\<rparr>)"
  shows "P (store_of (processSession w cfg ps dm now s st))"
  using assms
  by (cases "autoCheckoutDue cfg now s") (simp_all add: processSession_auto processSession_other)

lemma monitor_loop_invariant:
  assumes "P st"
    and "\<And>st t e sid n. P st \<Longrightarrow> P (handleCheckOut t e sid n st)"
    and "\<And>st sid. P st \<Longrightarrow> P (st\<lparr>remote := remote_flag sid (remote st)\<rparr>)"
  shows "P (store_of (monitor_loop w cfg ps dm now ss st tr))"
  using assms(1)
proof (induction ss arbitrary: st tr)
  case Nil
  then show ?case by simp
next
  case (Cons s ss)
  obtain st1 where st1: "processSession w cfg ps dm now s st
          = Completed st1 (alertsFor w cfg ps (isSupabaseConfigured st) now s)"
    using processSession_completes by blast
  have "P st1"
    using processSession_invariant [of P st w cfg ps dm now s, OF Cons.prems assms(2,3)] st1 by simp
  from Cons.IH [OF this] st1 show ?case by simp
qed

lemma monitor_invariant:
  assumes "P st"
    and "\<And>st t e sid n. P st \<Longrightarrow> P (handleCheckOut t e sid n st)"
    and "\<And>st sid. P st \<Longrightarrow> P (st\<lparr>remote := remote_flag sid (remote st)\<rparr>)"
  shows "P (store_of (monitor w cfg now st))"
  using monitor_loop_invariant [of P st, OF assms] assms(1)
  by (simp add: monitor_def Let_def)


lemma cloudStore_reached:
  "run [CheckIn 0 0 ''row-1'' None ''ST-001'', Fetch 0 None] (initStore True False MOCK_STUDENTS [])
     = cloudStore\<lparr>todaySessions := [cloudSessionX\<lparr>alertTriggered := None\<rparr>]\<rparr>"
  by (simp add: handleCheckIn_def initStore_def fetchData_def cloudStore_def cloudSessionX_def
        rowX_def active_of_row_def history_of_row_def)

text \<open>
  Claim C6, evaluated. Connected mode, one open row of patron ST-001 checked in at time
  0, the local list in sync with it. A check-out after five minutes closes the row with
  duration 5 and leaves the local list as it was: in this mode only a resynchronisation
  writes that list. A second check-out of the same id after ten minutes, before the
  resynchronisation, therefore still finds the session in the list and writes the row
  again: the check-out time and the duration of the first close are replaced by those of
  the second call. The call on the closed session is not a no-op.
\<close>

theorem connected_second_checkOut_overwrites:
  "remote (handleCheckOut 300000 None ''row-1'' None cloudStore)
     = [rowX\<lparr>check_out := Some 300000, duration_row := Some 5,
              notes_row := Some ''Manual Checkout''\<rparr>]
   \<and> activeSessions (handleCheckOut 300000 None ''row-1'' None cloudStore) = [cloudSessionX]
   \<and> handleCheckOut 600000 None ''row-1'' None (handleCheckOut 300000 None ''row-1'' None cloudStore)
       \<noteq> handleCheckOut 300000 None ''row-1'' None cloudStore
   \<and> remote (handleCheckOut 600000 None ''row-1'' None
               (handleCheckOut 300000 None ''row-1'' None cloudStore))
       = [rowX\<lparr>check_out := Some 600000, duration_row := Some 10,
                notes_row := Some ''Manual Checkout''\<rparr>]"
proof -
  have st1: "handleCheckOut 300000 None ''row-1'' None cloudStore
    = cloudStore\<lparr>remote := [rowX\<lparr>check_out := Some 300000, duration_row := Some 5,
                                 notes_row := Some ''Manual Checkout''\<rparr>]\<rparr>"
    by (simp add: handleCheckOut_def checkOutBody_def cloudStore_def cloudSessionX_def rowX_def
          remote_close_def or_default_def Math_round_round)
  have st2: "handleCheckOut 600000 None ''row-1'' None
       (cloudStore\<lparr>remote := [rowX\<lparr>check_out := Some 300000, duration_row := Some 5,
                                 notes_row := Some ''Manual Checkout''\<rparr>]\<rparr>)
    = cloudStore\<lparr>remote := [rowX\<lparr>check_out := Some 600000, duration_row := Some 10,
                                 notes_row := Some ''Manual Checkout''\<rparr>]\<rparr>"
    by (simp add: handleCheckOut_def checkOutBody_def cloudStore_def cloudSessionX_def rowX_def
          remote_close_def or_default_def Math_round_round)
  show ?thesis
    unfolding st1 st2 by (simp add: cloudStore_def rowX_def)
qed


subsection \<open>Check-out in the local mode\<close>

lemma handleCheckOut_local_active:
  "local_mode st \<Longrightarrow>
   activeSessions (handleCheckOut t e sid n st) = filter (\<lambda>x. id_session x \<noteq> sid) (activeSessions st)"
proof (cases "find (\<lambda>s. id_session s = sid) (activeSessions st)")
  case None
  then have "\<forall>x \<in> set (activeSessions st). id_session x \<noteq> sid" by (auto simp: find_None_iff)
  then have "filter (\<lambda>x. id_session x \<noteq> sid) (activeSessions st) = activeSessions st"
    by (simp add: filter_id_conv)
  then show ?thesis using None by (simp add: handleCheckOut_not_found)
next
  case (Some s)
  assume "local_mode st"
  then show ?thesis using Some by (simp add: handleCheckOut_local)
qed

lemma handleCheckOut_connected_active:
  "\<not> local_mode st \<Longrightarrow> activeSessions (handleCheckOut t e sid n st) = activeSessions st"
  by (auto simp: handleCheckOut_def checkOutBody_def local_mode_def Let_def split: option.splits)

lemma handleCheckOut_history_mono:
  "set (sessionHistory st) \<subseteq> set (sessionHistory (handleCheckOut t e sid n st))"
  by (auto simp: handleCheckOut_def checkOutBody_def local_mode_def Let_def split: option.splits)

lemma or_default_auto [simp]:
  "or_default (Some ''Auto-Checkout: System Time Limit Reached'') d
     = ''Auto-Checkout: System Time Limit Reached''"
  by (simp add: or_default_def)

text \<open>
  Claim C2. A check-out at time \<open>now\<close> of a session \<open>s\<close> of the active list closes it
  with the duration \<open>max 1 (round ((now - checkIn s) / 60000))\<close>: in the local mode the
  closed session put in front of the history has it, in the connected mode the remote
  row of the session gets it. The duration is at least one minute whatever the two times.
\<close>

theorem checkOut_duration:
  assumes "s \<in> set (activeSessions st)" and "distinct (map id_session (activeSessions st))"
  shows "(local_mode st \<longrightarrow>
            sessionHistory (handleCheckOut now e (id_session s) n st)
              = s\<lparr>checkOut := Some now,
                  duration := Some (max 1 (round (of_int (now - checkIn s) / 60000 :: rat))),
                  notes_session := Some (or_default n ''Manual Checkout'')\<rparr> # sessionHistory st)
       \<and> (\<not> local_mode st \<longrightarrow>
            remote (handleCheckOut now None (id_session s) n st)
              = map (\<lambda>r. if id_row r = id_session s
                         then r\<lparr>check_out := Some now,
                                duration_row :=
                                  Some (max 1 (round (of_int (now - checkIn s) / 60000 :: rat))),
                                notes_row := Some (or_default n ''Manual Checkout'')\<rparr>
                         else r) (remote st))
       \<and> 1 \<le> max 1 (round (of_int (now - checkIn s) / 60000 :: rat))"
proof -
  have f: "find (\<lambda>x. id_session x = id_session s) (activeSessions st) = Some s"
    using assms by (simp add: find_distinct_id)
  show ?thesis
    by (auto simp: handleCheckOut_local [OF _ f] handleCheckOut_connected [OF _ f]
          closed_copy_def spec_duration_def remote_close_def)
qed

text \<open>
  Claim C10. In the local (demo) mode a check-out of the active session \<open>s\<close> removes
  exactly \<open>s\<close> from the active list and leaves every other entry as it is, puts the
  closed copy of \<open>s\<close> in front of the history, and replaces in today's list the entries
  with the id of \<open>s\<close> by the closed copy, leaving all other entries as they are.
\<close>

theorem checkOut_frame:
  assumes "local_mode st" and "s \<in> set (activeSessions st)"
    and "distinct (map id_session (activeSessions st))"
  shows "activeSessions (handleCheckOut t e (id_session s) n st) = remove1 s (activeSessions st)
       \<and> set (activeSessions (handleCheckOut t e (id_session s) n st)) = set (activeSessions st) - {s}
       \<and> sessionHistory (handleCheckOut t e (id_session s) n st)
           = closed_copy t n s # sessionHistory st
       \<and> todaySessions (handleCheckOut t e (id_session s) n st)
           = map (\<lambda>x. if id_session x = id_session s then closed_copy t n s else x) (todaySessions st)
       \<and> id_session (closed_copy t n s) = id_session s
       \<and> studentId (closed_copy t n s) = studentId s
       \<and> checkIn (closed_copy t n s) = checkIn s
       \<and> checkOut (closed_copy t n s) = Some t"
proof -
  have f: "find (\<lambda>x. id_session x = id_session s) (activeSessions st) = Some s"
    using assms by (simp add: find_distinct_id)
  have d: "distinct (activeSessions st)"
    using assms(3) by (simp add: distinct_map)
  have r: "filter (\<lambda>x. id_session x \<noteq> id_session s) (activeSessions st) = remove1 s (activeSessions st)"
    using assms by (simp add: filter_distinct_id)
  show ?thesis
    using d by (simp add: handleCheckOut_local [OF assms(1) f] r closed_copy_def)
qed


lemma demoStore_facts:
  "local_mode demoStore" "sessionX \<in> set (activeSessions demoStore)"
  "sessionY \<in> set (activeSessions demoStore)"
  "distinct (map id_session (activeSessions demoStore))"
  by (simp_all add: local_mode_def demoStore_def sessionX_def sessionY_def)

lemma cloudStore_facts:
  "\<not> local_mode cloudStore" "cloudSessionX \<in> set (activeSessions cloudStore)"
  "distinct (map id_session (activeSessions cloudStore))"
  by (simp_all add: local_mode_def cloudStore_def)

theorem checkOut_duration_witness:
  "sessionX \<in> set (activeSessions demoStore) \<and> distinct (map id_session (activeSessions demoStore))
   \<and> local_mode demoStore
   \<and> sessionHistory (handleCheckOut 300000 None ''local-0'' None demoStore)
        = [sessionX\<lparr>checkOut := Some 300000, duration := Some 5,
                    notes_session := Some ''Manual Checkout''\<rparr>]
   \<and> cloudSessionX \<in> set (activeSessions cloudStore)
   \<and> distinct (map id_session (activeSessions cloudStore)) \<and> \<not> local_mode cloudStore
   \<and> remote (handleCheckOut 300000 None ''row-1'' None cloudStore)
        = [rowX\<lparr>check_out := Some 300000, duration_row := Some 5,
                 notes_row := Some ''Manual Checkout''\<rparr>]"
proof -
  have x: "id_session sessionX = ''local-0''" "checkIn sessionX = 0"
    by (simp_all add: sessionX_def)
  have c: "id_session cloudSessionX = ''row-1''" "checkIn cloudSessionX = 0"
    by (simp_all add: cloudSessionX_def)
  have h: "sessionHistory demoStore = []" by (simp add: demoStore_def)
  have r: "remote cloudStore = [rowX]" "id_row rowX = ''row-1''"
    by (simp_all add: cloudStore_def rowX_def)
  show ?thesis
    using demoStore_facts cloudStore_facts
      checkOut_duration [of sessionX demoStore 300000 None None]
      checkOut_duration [of cloudSessionX cloudStore 300000 None None]
    by (simp add: x c h r or_default_def)
qed

theorem checkOut_frame_witness:
  "local_mode demoStore \<and> sessionX \<in> set (activeSessions demoStore)
   \<and> distinct (map id_session (activeSessions demoStore))
   \<and> activeSessions (handleCheckOut 300000 None ''local-0'' None demoStore) = [sessionY]
   \<and> sessionHistory (handleCheckOut 300000 None ''local-0'' None demoStore)
        = [closed_copy 300000 None sessionX]
   \<and> todaySessions (handleCheckOut 300000 None ''local-0'' None demoStore)
        = [closed_copy 300000 None sessionX, sessionY]"
proof -
  have x: "id_session sessionX = ''local-0''" "id_session sessionY = ''local-60000''"
    by (simp_all add: sessionX_def sessionY_def)
  have h: "sessionHistory demoStore = []" "activeSessions demoStore = [sessionX, sessionY]"
    "todaySessions demoStore = [sessionX, sessionY]"
    by (simp_all add: demoStore_def)
  show ?thesis
    using demoStore_facts checkOut_frame [of demoStore sessionX 300000 None None]
    by (simp add: x h)
qed

subsection \<open>The loop, iteration by iteration\<close>

lemma monitor_loop_Cons:
  "monitor_loop w cfg ps dm now (s # ss) st tr =
     monitor_loop w cfg ps dm now ss (store_of (processSession w cfg ps dm now s st))
       (tr @ alertsFor w cfg ps (isSupabaseConfigured st) now s)"
proof -
  obtain st1 where "processSession w cfg ps dm now s st
          = Completed st1 (alertsFor w cfg ps (isSupabaseConfigured st) now s)"
    using processSession_completes by blast
  then show ?thesis by simp
qed

lemma processSession_local_mode [simp]:
  "local_mode (store_of (processSession w cfg ps dm now s st)) = local_mode st"
  by (cases "autoCheckoutDue cfg now s")
     (simp_all add: processSession_auto processSession_other local_mode_def)

lemma processSession_active:
  "activeSessions (store_of (processSession w cfg ps dm now s st)) =
     (if local_mode st \<and> autoCheckoutDue cfg now s
      then filter (\<lambda>x. id_session x \<noteq> id_session s) (activeSessions st)
      else activeSessions st)"
  by (cases "autoCheckoutDue cfg now s")
     (simp_all add: processSession_auto processSession_other handleCheckOut_local_active
        handleCheckOut_connected_active)

lemma monitor_loop_active:
  "activeSessions (store_of (monitor_loop w cfg ps dm now ss st tr)) =
     (if local_mode st
      then filter (\<lambda>x. \<forall>s \<in> set ss. autoCheckoutDue cfg now s \<longrightarrow> id_session s \<noteq> id_session x)
             (activeSessions st)
      else activeSessions st)"
proof (induction ss arbitrary: st tr)
  case Nil
  then show ?case by simp
next
  case (Cons s ss)
  show ?case
    unfolding monitor_loop_Cons Cons.IH
    by (auto simp: processSession_active intro: filter_cong)
qed

lemma monitor_active:
  "activeSessions (store_of (monitor w cfg now st)) =
     (if local_mode st
      then filter (\<lambda>x. \<forall>s \<in> set (activeSessions st).
                          autoCheckoutDue cfg now s \<longrightarrow> id_session s \<noteq> id_session x)
             (activeSessions st)
      else activeSessions st)"
  by (simp add: monitor_def Let_def monitor_loop_active)

lemma monitor_loop_preserves:
  assumes "P st"
    and "\<And>st s. s \<in> set ss \<Longrightarrow> autoCheckoutDue cfg now s \<Longrightarrow> P st \<Longrightarrow>
           P (handleCheckOut (clockAt w (id_session s)) (closeError w (id_session s)) (id_session s)
                (Some ''Auto-Checkout: System Time Limit Reached'') st)"
    and "\<And>st s. s \<in> set ss \<Longrightarrow> alertDue cfg now s \<Longrightarrow> P st \<Longrightarrow>
           P (st\<lparr>remote := remote_flag (id_session s) (remote st)\<rparr>)"
  shows "P (store_of (monitor_loop w cfg ps dm now ss st tr))"
  using assms
proof (induction ss arbitrary: st tr)
  case Nil
  then show ?case by simp
next
  case (Cons s ss)
  have "P (store_of (processSession w cfg ps dm now s st))"
  proof (cases "autoCheckoutDue cfg now s")
    case True
    then show ?thesis using Cons.prems(1,2) by (simp add: processSession_auto)
  next
    case False
    then show ?thesis using Cons.prems(1,3) by (simp add: processSession_other)
  qed
  then show ?case
    unfolding monitor_loop_Cons
    by (rule Cons.IH) (use Cons.prems in auto)
qed

lemma monitor_loop_history_mono:
  "set (sessionHistory st) \<subseteq> set (sessionHistory (store_of (monitor_loop w cfg ps dm now ss st tr)))"
proof (rule monitor_loop_preserves [where P = "\<lambda>st'. set (sessionHistory st) \<subseteq> set (sessionHistory st')"])
  show "set (sessionHistory st) \<subseteq> set (sessionHistory st)" by simp
next
  fix st' :: Store and s :: Session
  assume "set (sessionHistory st) \<subseteq> set (sessionHistory st')"
  then show "set (sessionHistory st)
               \<subseteq> set (sessionHistory (handleCheckOut (clockAt w (id_session s))
                      (closeError w (id_session s)) (id_session s)
                      (Some ''Auto-Checkout: System Time Limit Reached'') st'))"
    using handleCheckOut_history_mono by blast
next
  fix st' :: Store and s :: Session
  assume "set (sessionHistory st) \<subseteq> set (sessionHistory st')"
  then show "set (sessionHistory st)
               \<subseteq> set (sessionHistory (st'\<lparr>remote := remote_flag (id_session s) (remote st')\<rparr>))"
    by simp
qed

text \<open>The closed copy the monitor makes of a session.\<close>

lemma monitor_loop_history:
  assumes "local_mode st" and "distinct (map id_session (activeSessions st))"
    and "distinct (map id_session ss)" and "set ss \<subseteq> set (activeSessions st)"
    and "s \<in> set ss" and "autoCheckoutDue cfg now s"
  shows "closed_copy (clockAt w (id_session s)) (Some ''Auto-Checkout: System Time Limit Reached'') s
           \<in> set (sessionHistory (store_of (monitor_loop w cfg ps dm now ss st tr)))"
  using assms
proof (induction ss arbitrary: st tr)
  case Nil
  then show ?case by simp
next
  case (Cons a ss)
  let ?st1 = "store_of (processSession w cfg ps dm now a st)"
  show ?case
  proof (cases "a = s")
    case True
    have f: "find (\<lambda>x. id_session x = id_session s) (activeSessions st) = Some s"
      using Cons.prems True by (simp add: find_distinct_id)
    have "closed_copy (clockAt w (id_session s)) (Some ''Auto-Checkout: System Time Limit Reached'') s
            \<in> set (sessionHistory ?st1)"
      using True Cons.prems(1,6) by (simp add: processSession_auto handleCheckOut_local [OF _ f])
    then show ?thesis
      unfolding monitor_loop_Cons using monitor_loop_history_mono by blast
  next
    case False
    then have s: "s \<in> set ss" using Cons.prems by simp
    have ne: "\<forall>x \<in> set ss. id_session x \<noteq> id_session a"
      using Cons.prems(3) by (auto simp: image_iff)
    have act: "activeSessions ?st1 = activeSessions st
               \<or> activeSessions ?st1 = filter (\<lambda>x. id_session x \<noteq> id_session a) (activeSessions st)"
      by (simp add: processSession_active)
    have sub: "set ss \<subseteq> set (activeSessions ?st1)"
      using act ne Cons.prems(4) by auto
    have dis: "distinct (map id_session (activeSessions ?st1))"
      using act Cons.prems(2) by (auto simp: distinct_map_filter)
    have dss: "distinct (map id_session ss)" using Cons.prems(3) by simp
    have loc: "local_mode ?st1" using Cons.prems(1) by simp
    have "closed_copy (clockAt w (id_session s)) (Some ''Auto-Checkout: System Time Limit Reached'') s
            \<in> set (sessionHistory (store_of (monitor_loop w cfg ps dm now ss ?st1 tr')))" for tr'
      using loc dis dss sub s Cons.prems(6) by (rule Cons.IH)
    then show ?thesis unfolding monitor_loop_Cons by blast
  qed
qed

lemma monitor_history:
  assumes "local_mode st" and "distinct (map id_session (activeSessions st))"
    and "s \<in> set (activeSessions st)" and "autoCheckoutDue cfg now s"
  shows "closed_copy (clockAt w (id_session s)) (Some ''Auto-Checkout: System Time Limit Reached'') s
           \<in> set (sessionHistory (store_of (monitor w cfg now st)))"
  using assms monitor_loop_history [of st "activeSessions st" s cfg now w "patrons st" "demoMode st" "[]"]
  by (auto simp: monitor_def Let_def)

lemma alertsFor_session:
  "a \<in> set (alertsFor w cfg ps c now s) \<Longrightarrow> alert_session a = s \<and> alertDue cfg now s"
  by (cases "alertDue cfg now s"; cases "find (\<lambda>p. id_patron p = studentId s) ps")
     (auto simp: alertsFor_def)

lemma monitor_alerts:
  "alerts_of (monitor w cfg now st)
     = concat (map (alertsFor w cfg (patrons st) (isSupabaseConfigured st) now) (activeSessions st))"
  using monitor_completes [of w cfg now st] by auto

lemma monitor_alert_due:
  "a \<in> set (alerts_of (monitor w cfg now st)) \<Longrightarrow>
   alert_session a \<in> set (activeSessions st) \<and> alertDue cfg now (alert_session a)"
  by (auto simp: monitor_alerts dest: alertsFor_session)

subsection \<open>Remote rows during a tick\<close>

lemma handleCheckOut_remote:
  "remote (handleCheckOut t e sid n st) = remote st
   \<or> (\<exists>d n'. remote (handleCheckOut t e sid n st) = remote_close sid t d n' (remote st))"
  by (auto simp: handleCheckOut_def checkOutBody_def Let_def split: option.splits)

lemma remote_close_other:
  "sid' \<noteq> sid \<Longrightarrow> filter (\<lambda>r. id_row r = sid) (remote_close sid' t d n rows)
                     = filter (\<lambda>r. id_row r = sid) rows"
  by (induction rows) (auto simp: remote_close_def)

lemma remote_flag_other:
  "sid' \<noteq> sid \<Longrightarrow> filter (\<lambda>r. id_row r = sid) (remote_flag sid' rows)
                     = filter (\<lambda>r. id_row r = sid) rows"
  by (induction rows) (auto simp: remote_flag_def)

lemma handleCheckOut_remote_other:
  "sid' \<noteq> sid \<Longrightarrow> filter (\<lambda>r. id_row r = sid) (remote (handleCheckOut t e sid' n st))
                     = filter (\<lambda>r. id_row r = sid) (remote st)"
  using handleCheckOut_remote [of t e sid' n st] by (auto simp: remote_close_other)

lemma monitor_loop_remote_other:
  assumes "\<forall>x \<in> set ss. autoCheckoutDue cfg now x \<or> alertDue cfg now x \<longrightarrow> id_session x \<noteq> sid"
  shows "filter (\<lambda>r. id_row r = sid) (remote (store_of (monitor_loop w cfg ps dm now ss st tr)))
           = filter (\<lambda>r. id_row r = sid) (remote st)"
proof (rule monitor_loop_preserves
    [where P = "\<lambda>st'. filter (\<lambda>r. id_row r = sid) (remote st') = filter (\<lambda>r. id_row r = sid) (remote st)"])
  show "filter (\<lambda>r. id_row r = sid) (remote st) = filter (\<lambda>r. id_row r = sid) (remote st)" by simp
next
  fix st' :: Store and s :: Session
  assume "s \<in> set ss" "autoCheckoutDue cfg now s"
    "filter (\<lambda>r. id_row r = sid) (remote st') = filter (\<lambda>r. id_row r = sid) (remote st)"
  then show "filter (\<lambda>r. id_row r = sid)
               (remote (handleCheckOut (clockAt w (id_session s)) (closeError w (id_session s))
                  (id_session s) (Some ''Auto-Checkout: System Time Limit Reached'') st'))
             = filter (\<lambda>r. id_row r = sid) (remote st)"
    using assms by (simp add: handleCheckOut_remote_other)
next
  fix st' :: Store and s :: Session
  assume "s \<in> set ss" "alertDue cfg now s"
    "filter (\<lambda>r. id_row r = sid) (remote st') = filter (\<lambda>r. id_row r = sid) (remote st)"
  then show "filter (\<lambda>r. id_row r = sid)
               (remote (st'\<lparr>remote := remote_flag (id_session s) (remote st')\<rparr>))
             = filter (\<lambda>r. id_row r = sid) (remote st)"
    using assms by (simp add: remote_flag_other)
qed






subsection \<open>Auto-checkout during a tick\<close>

declare monitor_loop.simps(2) [simp del]

lemma processSession_store_local_mode:
  "local_mode (store_of (monitor_loop w cfg ps dm now ss st tr)) = local_mode st"
  by (induction ss arbitrary: st tr) (simp_all add: monitor_loop_Cons)

lemma monitor_loop_connected_active:
  "\<not> local_mode st \<Longrightarrow> activeSessions (store_of (monitor_loop w cfg ps dm now ss st tr)) = activeSessions st"
  by (simp add: monitor_loop_active)

text \<open>The rows of a session that the monitor closes in the connected mode.\<close>

lemma remote_close_same:
  "filter (\<lambda>r. id_row r = sid) (remote_close sid t d n rows)
     = map (\<lambda>r. r\<lparr>check_out := Some t, duration_row := Some d, notes_row := Some n\<rparr>)
         (filter (\<lambda>r. id_row r = sid) rows)"
  by (induction rows) (simp_all add: remote_close_def)

lemma processSession_remote_other:
  assumes "id_session a \<noteq> sid"
  shows "filter (\<lambda>r. id_row r = sid) (remote (store_of (processSession w cfg ps dm now a st)))
           = filter (\<lambda>r. id_row r = sid) (remote st)"
  using assms
  by (cases "autoCheckoutDue cfg now a")
     (simp_all add: processSession_auto processSession_other handleCheckOut_remote_other
        remote_flag_other)

lemma monitor_loop_remote_closed:
  assumes "\<not> local_mode st" and dis: "distinct (map id_session (activeSessions st))"
    and "distinct (map id_session ss)" and "set ss \<subseteq> set (activeSessions st)"
    and "s \<in> set ss" and "autoCheckoutDue cfg now s" and "closeError w (id_session s) = None"
  shows "filter (\<lambda>r. id_row r = id_session s) (remote (store_of (monitor_loop w cfg ps dm now ss st tr)))
           = map (\<lambda>r. r\<lparr>check_out := Some (clockAt w (id_session s)),
                         duration_row := Some (spec_duration (clockAt w (id_session s)) (checkIn s)),
                         notes_row := Some ''Auto-Checkout: System Time Limit Reached''\<rparr>)
               (filter (\<lambda>r. id_row r = id_session s) (remote st))"
  using assms(1,3,4,5) dis
proof (induction ss arbitrary: st tr)
  case Nil
  then show ?case by simp
next
  case (Cons a ss)
  let ?st1 = "store_of (processSession w cfg ps dm now a st)"
  have con1: "\<not> local_mode ?st1" using Cons.prems(1) by simp
  have act1: "activeSessions ?st1 = activeSessions st"
    using Cons.prems(1) by (simp add: processSession_active)
  show ?case
  proof (cases "a = s")
    case True
    have f: "find (\<lambda>x. id_session x = id_session s) (activeSessions st) = Some s"
      using Cons.prems True by (simp add: find_distinct_id)
    have st1: "?st1 = st\<lparr>remote := remote_close (id_session s) (clockAt w (id_session s))
                        (spec_duration (clockAt w (id_session s)) (checkIn s))
                        ''Auto-Checkout: System Time Limit Reached'' (remote st)\<rparr>"
      using True Cons.prems(1) assms(6,7)
      by (simp add: processSession_auto handleCheckOut_connected [OF _ f])
    have ne: "\<forall>x \<in> set ss. autoCheckoutDue cfg now x \<or> alertDue cfg now x
                \<longrightarrow> id_session x \<noteq> id_session s"
      using Cons.prems(2) True by (auto simp: image_iff)
    have "filter (\<lambda>r. id_row r = id_session s)
                 (remote (store_of (monitor_loop w cfg ps dm now ss ?st1 tr')))
               = filter (\<lambda>r. id_row r = id_session s) (remote ?st1)" for tr'
      using ne by (rule monitor_loop_remote_other)
    then show ?thesis
      unfolding monitor_loop_Cons by (simp add: st1 remote_close_same)
  next
    case False
    then have i1: "s \<in> set ss" using Cons.prems(4) by simp
    have i2: "distinct (map id_session ss)" using Cons.prems(2) by simp
    have i3: "set ss \<subseteq> set (activeSessions ?st1)" using Cons.prems(3) act1 by simp
    have i4: "distinct (map id_session (activeSessions ?st1))" using Cons.prems(5) act1 by simp
    have "id_session a \<noteq> id_session s"
      using Cons.prems(2) i1 by (auto simp: image_iff)
    then have same: "filter (\<lambda>r. id_row r = id_session s) (remote ?st1)
                       = filter (\<lambda>r. id_row r = id_session s) (remote st)"
      by (rule processSession_remote_other)
    show ?thesis
      unfolding monitor_loop_Cons Cons.IH [OF con1 i2 i3 i1 i4] same ..
  qed
qed

lemma autoDue_not_alertDue: "autoCheckoutDue cfg now s \<Longrightarrow> \<not> alertDue cfg now s"
  by (simp add: alertDue_def)

text \<open>
  Claim C4. When auto-checkout is enabled (with a limit that is not negative) and the
  elapsed minutes of an active session have reached the limit, the iteration of the tick
  for that session is a call of \<open>handleCheckOut\<close> with the note
  \<open>Auto-Checkout: System Time Limit Reached\<close> and no dispatcher call. After the tick no
  alert of the tick is for the session; in the local mode the session has left the active
  list and its closed copy, with that note and the duration of the check-out rule, is in
  the history; in the connected mode, the update succeeding, its remote rows are closed
  with that note and duration.
\<close>

theorem autoCheckout_closes:
  assumes "s \<in> set (activeSessions st)" and "distinct (map id_session (activeSessions st))"
    and "autoCheckoutEnabled cfg" and "0 \<le> autoCheckoutHours cfg"
    and "of_int (autoCheckoutHours cfg * 60) \<le> elapsedMinutes now s"
  shows "processSession w cfg ps dm now s st1
           = Completed (handleCheckOut (clockAt w (id_session s)) (closeError w (id_session s))
                          (id_session s) (Some ''Auto-Checkout: System Time Limit Reached'') st1) []
       \<and> s \<notin> alert_session ` set (alerts_of (monitor w cfg now st))
       \<and> (local_mode st \<longrightarrow>
            s \<notin> set (activeSessions (store_of (monitor w cfg now st)))
            \<and> s\<lparr>checkOut := Some (clockAt w (id_session s)),
                 duration := Some (max 1 (round (of_int (clockAt w (id_session s) - checkIn s) / 60000 :: rat))),
                 notes_session := Some ''Auto-Checkout: System Time Limit Reached''\<rparr>
                \<in> set (sessionHistory (store_of (monitor w cfg now st))))
       \<and> (\<not> local_mode st \<and> closeError w (id_session s) = None \<longrightarrow>
            filter (\<lambda>r. id_row r = id_session s) (remote (store_of (monitor w cfg now st)))
              = map (\<lambda>r. r\<lparr>check_out := Some (clockAt w (id_session s)),
                            duration_row :=
                              Some (max 1 (round (of_int (clockAt w (id_session s) - checkIn s) / 60000 :: rat))),
                            notes_row := Some ''Auto-Checkout: System Time Limit Reached''\<rparr>)
                  (filter (\<lambda>r. id_row r = id_session s) (remote st)))"
proof -
  have "(0::rat) \<le> of_int (autoCheckoutHours cfg * 60)" using assms(4) by simp
  then have due: "autoCheckoutDue cfg now s"
    using assms(3,5) by (simp add: autoCheckoutDue_def)
  have a: "processSession w cfg ps dm now s st1
           = Completed (handleCheckOut (clockAt w (id_session s)) (closeError w (id_session s))
                          (id_session s) (Some ''Auto-Checkout: System Time Limit Reached'') st1) []"
    using due by (rule processSession_auto)
  have b: "s \<notin> alert_session ` set (alerts_of (monitor w cfg now st))"
    using due autoDue_not_alertDue monitor_alert_due by blast
  have c: "s \<notin> set (activeSessions (store_of (monitor w cfg now st)))" if "local_mode st"
    using that due assms(1) by (auto simp: monitor_active)
  have d: "s\<lparr>checkOut := Some (clockAt w (id_session s)),
                 duration := Some (max 1 (round (of_int (clockAt w (id_session s) - checkIn s) / 60000 :: rat))),
                 notes_session := Some ''Auto-Checkout: System Time Limit Reached''\<rparr>
                \<in> set (sessionHistory (store_of (monitor w cfg now st)))" if "local_mode st"
    using monitor_history [OF that assms(2,1) due, of w]
    by (simp add: closed_copy_def spec_duration_def)
  have e: "filter (\<lambda>r. id_row r = id_session s) (remote (store_of (monitor w cfg now st)))
              = map (\<lambda>r. r\<lparr>check_out := Some (clockAt w (id_session s)),
                            duration_row :=
                              Some (max 1 (round (of_int (clockAt w (id_session s) - checkIn s) / 60000 :: rat))),
                            notes_row := Some ''Auto-Checkout: System Time Limit Reached''\<rparr>)
                  (filter (\<lambda>r. id_row r = id_session s) (remote st))"
    if "\<not> local_mode st" "closeError w (id_session s) = None"
    using monitor_loop_remote_closed [OF that(1) assms(2) assms(2) _ assms(1) due that(2),
        of "patrons st" "demoMode st" "[]"] assms(1)
    by (auto simp: monitor_def Let_def spec_duration_def)
  show ?thesis
    apply (intro conjI impI)
    subgoal by (rule a)
    subgoal by (rule b)
    subgoal by (rule c)
    subgoal by (rule d)
    subgoal using e by blast
    done
qed


theorem autoCheckout_closes_witness:
  "sessionX \<in> set (activeSessions demoStore)
   \<and> distinct (map id_session (activeSessions demoStore))
   \<and> autoCheckoutEnabled hourSettings \<and> 0 \<le> autoCheckoutHours hourSettings
   \<and> of_int (autoCheckoutHours hourSettings * 60) \<le> elapsedMinutes 3660000 sessionX
   \<and> local_mode demoStore
   \<and> sessionX \<notin> alert_session ` set (alerts_of (monitor (calmWorld 3660000) hourSettings 3660000 demoStore))
   \<and> sessionX \<notin> set (activeSessions (store_of (monitor (calmWorld 3660000) hourSettings 3660000 demoStore)))
   \<and> sessionX\<lparr>checkOut := Some 3660000, duration := Some 61,
               notes_session := Some ''Auto-Checkout: System Time Limit Reached''\<rparr>
        \<in> set (sessionHistory (store_of (monitor (calmWorld 3660000) hourSettings 3660000 demoStore)))
   \<and> cloudSessionX \<in> set (activeSessions cloudStore)
   \<and> distinct (map id_session (activeSessions cloudStore))
   \<and> of_int (autoCheckoutHours hourSettings * 60) \<le> elapsedMinutes 3660000 cloudSessionX
   \<and> \<not> local_mode cloudStore \<and> closeError (calmWorld 3660000) ''row-1'' = None
   \<and> filter (\<lambda>r. id_row r = ''row-1'')
         (remote (store_of (monitor (calmWorld 3660000) hourSettings 3660000 cloudStore)))
        = [rowX\<lparr>check_out := Some 3660000, duration_row := Some 61,
                 notes_row := Some ''Auto-Checkout: System Time Limit Reached''\<rparr>]"
proof -
  have cfg: "autoCheckoutEnabled hourSettings" "0 \<le> autoCheckoutHours hourSettings"
    "autoCheckoutHours hourSettings = 1"
    by (simp_all add: hourSettings_def DEFAULT_SETTINGS_def)
  have x: "id_session sessionX = ''local-0''" "checkIn sessionX = 0"
    "id_session cloudSessionX = ''row-1''" "checkIn cloudSessionX = 0"
    by (simp_all add: sessionX_def cloudSessionX_def)
  have el: "of_int (autoCheckoutHours hourSettings * 60) \<le> elapsedMinutes 3660000 sessionX"
    "of_int (autoCheckoutHours hourSettings * 60) \<le> elapsedMinutes 3660000 cloudSessionX"
    by (simp_all add: cfg x elapsedMinutes_def)
  have w: "clockAt (calmWorld 3660000) = (\<lambda>sid. 3660000)"
    "closeError (calmWorld 3660000) = (\<lambda>sid. None)"
    by (simp_all add: calmWorld_def)
  have r: "remote cloudStore = [rowX]" "id_row rowX = ''row-1''"
    by (simp_all add: cloudStore_def rowX_def)
  show ?thesis
    using cfg(1,2) el demoStore_facts cloudStore_facts
      autoCheckout_closes [of sessionX demoStore hourSettings 3660000 "calmWorld 3660000"]
      autoCheckout_closes [of cloudSessionX cloudStore hourSettings 3660000 "calmWorld 3660000"]
    by (simp add: x w r)
qed

subsection \<open>Failures inside a tick\<close>

lemma alertsFor_found:
  "alertDue cfg now t \<Longrightarrow> find (\<lambda>q. id_patron q = studentId t) ps = Some q \<Longrightarrow>
   \<exists>fx. alertsFor w cfg ps c now t = [Alert t q \<lfloor>elapsedMinutes now t\<rfloor> (email (notifications cfg)) fx]"
  by (simp add: alertsFor_def)

text \<open>
  Claim C9. The dispatcher returns normally in every environment, also when the browser
  notification throws and when the edge function fails or rejects. A tick completes in
  every world, and the dispatcher calls it makes are those owed to each session of the
  active list in turn. A session whose patron is not found is passed over without a
  change. Whatever happens to the other sessions, every session whose alert is due and
  whose patron is found gets its dispatcher call, and in the local mode every session
  due for auto-checkout leaves the active list.
\<close>

theorem failures_isolated:
  "snd (sendOverdueAlert configured env p d e) = Inr ()
   \<and> (\<exists>st'. monitor w cfg now st
              = Completed st' (concat (map (alertsFor w cfg (patrons st) (isSupabaseConfigured st) now)
                                        (activeSessions st))))
   \<and> (find (\<lambda>q. id_patron q = studentId s) ps = None \<and> \<not> autoCheckoutDue cfg now s
        \<longrightarrow> processSession w cfg ps dm now s st1 = Completed st1 [])
   \<and> (\<forall>t \<in> set (activeSessions st). \<forall>q.
         alertDue cfg now t \<and> find (\<lambda>q. id_patron q = studentId t) (patrons st) = Some q
         \<longrightarrow> (\<exists>fx. Alert t q \<lfloor>elapsedMinutes now t\<rfloor> (email (notifications cfg)) fx
                     \<in> set (alerts_of (monitor w cfg now st))))
   \<and> (\<forall>t \<in> set (activeSessions st).
         local_mode st \<and> autoCheckoutDue cfg now t
         \<longrightarrow> t \<notin> set (activeSessions (store_of (monitor w cfg now st))))"
proof (intro conjI)
  show "snd (sendOverdueAlert configured env p d e) = Inr ()"
    by (rule sendOverdueAlert_returns)
  show "\<exists>st'. monitor w cfg now st
              = Completed st' (concat (map (alertsFor w cfg (patrons st) (isSupabaseConfigured st) now)
                                        (activeSessions st)))"
    by (rule monitor_completes)
  show "find (\<lambda>q. id_patron q = studentId s) ps = None \<and> \<not> autoCheckoutDue cfg now s
        \<longrightarrow> processSession w cfg ps dm now s st1 = Completed st1 []"
    by (simp add: processSession_other alertsFor_def)
  show "\<forall>t \<in> set (activeSessions st). \<forall>q.
         alertDue cfg now t \<and> find (\<lambda>q. id_patron q = studentId t) (patrons st) = Some q
         \<longrightarrow> (\<exists>fx. Alert t q \<lfloor>elapsedMinutes now t\<rfloor> (email (notifications cfg)) fx
                     \<in> set (alerts_of (monitor w cfg now st)))"
  proof (intro ballI allI impI)
    fix t q
    assume t: "t \<in> set (activeSessions st)"
      and "alertDue cfg now t \<and> find (\<lambda>q. id_patron q = studentId t) (patrons st) = Some q"
    then obtain fx where "alertsFor w cfg (patrons st) (isSupabaseConfigured st) now t
        = [Alert t q \<lfloor>elapsedMinutes now t\<rfloor> (email (notifications cfg)) fx]"
      using alertsFor_found by blast
    then have "Alert t q \<lfloor>elapsedMinutes now t\<rfloor> (email (notifications cfg)) fx
                 \<in> set (alerts_of (monitor w cfg now st))"
      using t by (force simp: monitor_alerts)
    then show "\<exists>fx. Alert t q \<lfloor>elapsedMinutes now t\<rfloor> (email (notifications cfg)) fx
                 \<in> set (alerts_of (monitor w cfg now st))" ..
  qed
  show "\<forall>t \<in> set (activeSessions st).
         local_mode st \<and> autoCheckoutDue cfg now t
         \<longrightarrow> t \<notin> set (activeSessions (store_of (monitor w cfg now st)))"
    by (auto simp: monitor_active)
qed

lemma failing_alert:
  "sendOverdueAlert c (notifEnv (failingWorld t) pid) p d e = ([ConsoleError ''Illegal constructor''], Inr ())"
  by (simp add: sendOverdueAlert_def browserNotification_def failingWorld_def)

theorem failures_isolated_witness:
  "find (\<lambda>q. id_patron q = studentId sessionX) (patrons orphanStore) = None
   \<and> \<not> autoCheckoutDue eagerSettings 120000 sessionX
   \<and> processSession (failingWorld 120000) eagerSettings (patrons orphanStore) True 120000 sessionX orphanStore
        = Completed orphanStore []
   \<and> sessionY \<in> set (activeSessions orphanStore) \<and> alertDue eagerSettings 120000 sessionY
   \<and> find (\<lambda>q. id_patron q = studentId sessionY) (patrons orphanStore) = Some patronY
   \<and> (\<exists>fx. Alert sessionY patronY 1 ''bhfnmtclibrary@gmail.com'' fx
             \<in> set (alerts_of (monitor (failingWorld 120000) eagerSettings 120000 orphanStore)))
   \<and> (\<exists>st'. monitor (failingWorld 120000) eagerSettings 120000 orphanStore
              = Completed st' [Alert sessionY patronY 1 ''bhfnmtclibrary@gmail.com''
                                 [ConsoleError ''Illegal constructor'']])
   \<and> sessionX \<in> set (activeSessions demoStore) \<and> local_mode demoStore
   \<and> autoCheckoutDue hourSettings 3660000 sessionX
   \<and> sessionX \<notin> set (activeSessions (store_of (monitor (failingWorld 3660000) hourSettings 3660000 demoStore)))"
proof -
  have cfg: "\<not> autoCheckoutEnabled eagerSettings" "enabled (notifications eagerSettings)"
    "thresholdMinutes (notifications eagerSettings) = 0"
    "email (notifications eagerSettings) = ''bhfnmtclibrary@gmail.com''"
    "autoCheckoutEnabled hourSettings" "autoCheckoutHours hourSettings = 1"
    by (simp_all add: eagerSettings_def hourSettings_def DEFAULT_SETTINGS_def)
  have st: "patrons orphanStore = [patronY]" "activeSessions orphanStore = [sessionX, sessionY]"
    "isSupabaseConfigured orphanStore"
    by (simp_all add: orphanStore_def demoStore_def)
  have f: "find (\<lambda>q. id_patron q = studentId sessionX) [patronY] = None"
    "find (\<lambda>q. id_patron q = studentId sessionY) [patronY] = Some patronY"
    by (simp_all add: patronY_def sessionX_def sessionY_def)
  have el: "elapsedMinutes 120000 sessionX = 2" "elapsedMinutes 120000 sessionY = 1"
    "elapsedMinutes 3660000 sessionX = 61"
    by (simp_all add: elapsedMinutes_def sessionX_def sessionY_def)
  have ids: "id_patron patronY = ''ST-002''" "studentId sessionX = ''ST-001''"
    "studentId sessionY = ''ST-002''"
    by (simp_all add: patronY_def sessionX_def sessionY_def)
  have at: "alertTriggered sessionX = None" "alertTriggered sessionY = None"
    by (simp_all add: sessionX_def sessionY_def)
  have due: "\<not> autoCheckoutDue eagerSettings 120000 sessionX"
    "alertDue eagerSettings 120000 sessionX" "alertDue eagerSettings 120000 sessionY"
    "autoCheckoutDue hourSettings 3660000 sessionX"
    by (simp_all add: autoCheckoutDue_def alertDue_def cfg el at truthy_def)
  have al: "alertsFor (failingWorld 120000) eagerSettings [patronY] True 120000 sessionX = []"
    "alertsFor (failingWorld 120000) eagerSettings [patronY] True 120000 sessionY
       = [Alert sessionY patronY 1 ''bhfnmtclibrary@gmail.com'' [ConsoleError ''Illegal constructor'']]"
    by (simp_all add: alertsFor_def due ids el cfg failing_alert)
  show ?thesis
    using due(1,3,4) f demoStore_facts
      failures_isolated [of True "notifEnv (failingWorld 120000) ''ST-002''" patronY 1
        "''bhfnmtclibrary@gmail.com''" "failingWorld 120000" eagerSettings 120000 orphanStore
        sessionX "[patronY]" True orphanStore]
      failures_isolated [of True "notifEnv (failingWorld 120000) ''ST-002''" patronY 1
        "''bhfnmtclibrary@gmail.com''" "failingWorld 3660000" hourSettings 3660000 demoStore
        sessionX "[patronY]" True orphanStore]
    by (simp add: st al el cfg ids)
qed

subsection \<open>Open and closed sessions in a run\<close>

lemma list_all_filter_same: "list_all P xs \<Longrightarrow> filter P xs = xs"
  by (induction xs) auto

lemma list_all_filter_none: "list_all (\<lambda>x. \<not> P x) xs \<Longrightarrow> filter P xs = []"
  by (induction xs) auto

lemma list_all_sub: "list_all P xs \<Longrightarrow> set ys \<subseteq> set xs \<Longrightarrow> list_all P ys"
  by (auto simp: list_all_iff)

lemma handleCheckOut_active_sub:
  "set (activeSessions (handleCheckOut t e sid n st)) \<subseteq> set (activeSessions st)"
  by (cases "local_mode st") (auto simp: handleCheckOut_local_active handleCheckOut_connected_active)

lemma handleCheckOut_history:
  "sessionHistory (handleCheckOut t e sid n st) = sessionHistory st
   \<or> (\<exists>s. sessionHistory (handleCheckOut t e sid n st) = closed_copy t n s # sessionHistory st)"
proof (cases "find (\<lambda>s. id_session s = sid) (activeSessions st)")
  case None
  then show ?thesis by (simp add: handleCheckOut_not_found)
next
  case (Some s)
  show ?thesis
  proof (cases "local_mode st")
    case True
    then show ?thesis using Some by (auto simp: handleCheckOut_local)
  next
    case False
    then show ?thesis using Some
      by (cases e) (simp_all add: handleCheckOut_connected handleCheckOut_connected_error)
  qed
qed

lemma handleCheckOut_open_and_closed:
  assumes "open_and_closed st"
  shows "open_and_closed (handleCheckOut t e sid n st)"
proof -
  have "list_all (\<lambda>s. checkOut s = None) (activeSessions (handleCheckOut t e sid n st))"
    using assms handleCheckOut_active_sub [of t e sid n st]
    by (auto simp: open_and_closed_def intro: list_all_sub)
  moreover have "list_all (\<lambda>s. checkOut s \<noteq> None) (sessionHistory (handleCheckOut t e sid n st))"
    using assms handleCheckOut_history [of t e sid n st]
    by (auto simp: open_and_closed_def closed_copy_def)
  ultimately show ?thesis by (simp add: open_and_closed_def)
qed

lemma handleCheckIn_open_and_closed:
  "open_and_closed st \<Longrightarrow> open_and_closed (handleCheckIn now dn rid ie p st)"
  by (auto simp: handleCheckIn_def open_and_closed_def Let_def split: option.splits)

lemma latest_closed:
  "x \<in> set (take n (rev (sort_key k (filter (\<lambda>r. check_out r \<noteq> None) rows)))) \<Longrightarrow> check_out x \<noteq> None"
  by (auto dest!: in_set_takeD)

lemma history_of_closed_rows:
  "\<forall>x \<in> set xs. check_out x \<noteq> None \<Longrightarrow> list_all (\<lambda>s. checkOut s \<noteq> None) (map history_of_row xs)"
  by (induction xs) (simp_all add: history_of_row_def)

lemma fetchData_open_and_closed:
  assumes "open_and_closed st"
  shows "open_and_closed (fetchData sod fe st)"
proof (cases "demoMode st \<or> \<not> isSupabaseConfigured st")
  case True
  then show ?thesis using assms by (simp add: fetchData_def open_and_closed_def)
next
  case False
  show ?thesis
  proof (cases fe)
    case (Some e)
    then show ?thesis using assms False by (simp add: fetchData_def open_and_closed_def)
  next
    case None
    have "list_all (\<lambda>s. checkOut s = None) (map active_of_row rows')" for rows'
      by (simp add: list_all_iff active_of_row_def)
    moreover have "list_all (\<lambda>s. checkOut s \<noteq> None)
        (map history_of_row (take n (rev (sort_key k (filter (\<lambda>r. check_out r \<noteq> None) rows')))))"
      for n k rows'
      by (rule history_of_closed_rows) (use latest_closed in blast)
    ultimately show ?thesis using None False
      by (simp add: fetchData_def open_and_closed_def)
  qed
qed

lemma monitor_open_and_closed:
  assumes "open_and_closed st"
  shows "open_and_closed (store_of (monitor w cfg now st))"
  using assms
proof (rule monitor_invariant)
  fix st' :: Store and t e sid n
  assume "open_and_closed st'"
  then show "open_and_closed (handleCheckOut t e sid n st')"
    by (rule handleCheckOut_open_and_closed)
next
  fix st' :: Store and sid
  assume "open_and_closed st'"
  then show "open_and_closed (st'\<lparr>remote := remote_flag sid (remote st')\<rparr>)"
    by (simp add: open_and_closed_def)
qed

lemma step_open_and_closed: "open_and_closed st \<Longrightarrow> open_and_closed (step op st)"
  by (cases op)
     (simp_all add: handleCheckIn_open_and_closed handleCheckOut_open_and_closed
        monitor_open_and_closed fetchData_open_and_closed)

lemma run_open_and_closed: "open_and_closed st \<Longrightarrow> open_and_closed (run ops st)"
  by (induction ops arbitrary: st) (simp_all add: step_open_and_closed)

lemma initStore_open_and_closed: "open_and_closed (initStore c d ps rows)"
  by (simp add: open_and_closed_def initStore_def)

text \<open>
  Claim C8. In every store reached by a run from the initial store, the count the
  dashboard uses (the length of the active list) is the number of sessions of the active
  list and the history whose check-out is absent. For every list of sessions and every
  capacity, the remaining seats are \<open>max 0 (capacity - activeTotal)\<close>; for a capacity other
  than zero the occupancy percentage is \<open>min 100 (activeTotal / capacity * 100)\<close>, and
  for the capacity zero, where the quotient is plus infinity or undefined, it is \<open>100\<close>
  with a session and \<open>NaN\<close> without; the
  remaining seats and the active total add up to at most the capacity when the active
  total does not exceed it, and the remaining seats are zero otherwise.
\<close>

theorem occupancy_accounting:
  "activeTotal (activeSessions (run ops (initStore c d ps rows)))
     = int (length (filter (\<lambda>s. checkOut s = None)
                      (activeSessions (run ops (initStore c d ps rows))
                       @ sessionHistory (run ops (initStore c d ps rows)))))
   \<and> remainingSeats cfg ss = max 0 (dailyCapacity cfg - activeTotal ss)
   \<and> (dailyCapacity cfg \<noteq> 0 \<longrightarrow>
        occupancyPercentage cfg ss
          = Num (min 100 (of_int (activeTotal ss) / of_int (dailyCapacity cfg) * 100)))
   \<and> (dailyCapacity cfg = 0 \<and> ss \<noteq> [] \<longrightarrow> occupancyPercentage cfg ss = Num 100)
   \<and> (dailyCapacity cfg = 0 \<and> ss = [] \<longrightarrow> occupancyPercentage cfg ss = NaN)
   \<and> (activeTotal ss \<le> dailyCapacity cfg \<longrightarrow> remainingSeats cfg ss + activeTotal ss \<le> dailyCapacity cfg)
   \<and> (dailyCapacity cfg < activeTotal ss \<longrightarrow> remainingSeats cfg ss = 0)"
proof -
  let ?st = "run ops (initStore c d ps rows)"
  have oc: "open_and_closed ?st"
    by (simp add: run_open_and_closed initStore_open_and_closed)
  then have "filter (\<lambda>s. checkOut s = None) (activeSessions ?st) = activeSessions ?st"
    and "filter (\<lambda>s. checkOut s = None) (sessionHistory ?st) = []"
    by (simp_all add: open_and_closed_def list_all_filter_same list_all_filter_none)
  then have "activeTotal (activeSessions ?st)
     = int (length (filter (\<lambda>s. checkOut s = None) (activeSessions ?st @ sessionHistory ?st)))"
    by (simp add: activeTotal_def)
  then show ?thesis
    by (simp add: remainingSeats_def occupancyPercentage_def activeTotal_def Let_def min.commute)
qed

theorem occupancy_accounting_witness:
  "activeTotal (activeSessions (run [CheckIn 0 0 ''r1'' None ''ST-001'', CheckIn 60000 60000 ''r2'' None ''ST-002'']
                                 (initStore True True MOCK_STUDENTS []))) = 2
   \<and> dailyCapacity twoSeats \<noteq> 0
   \<and> activeTotal [sessionX, sessionY] \<le> dailyCapacity twoSeats
   \<and> remainingSeats twoSeats [sessionX, sessionY] = 0
   \<and> occupancyPercentage twoSeats [sessionX, sessionY] = Num 100
   \<and> remainingSeats twoSeats [sessionX, sessionY] + activeTotal [sessionX, sessionY] \<le> dailyCapacity twoSeats
   \<and> dailyCapacity oneSeat < activeTotal [sessionX, sessionY]
   \<and> remainingSeats oneSeat [sessionX, sessionY] = 0
   \<and> dailyCapacity noSeat = 0
   \<and> occupancyPercentage noSeat [sessionX, sessionY] = Num 100
   \<and> occupancyPercentage noSeat [] = NaN"
proof -
  have cap: "dailyCapacity twoSeats = 2" "dailyCapacity oneSeat = 1" "dailyCapacity noSeat = 0"
    by (simp_all add: twoSeats_def oneSeat_def noSeat_def DEFAULT_SETTINGS_def)
  have at: "activeTotal [sessionX, sessionY] = 2" by (simp add: activeTotal_def)
  have st: "activeSessions demoStore = [sessionX, sessionY]" "sessionHistory demoStore = []"
    by (simp_all add: demoStore_def)
  have op: "checkOut sessionX = None" "checkOut sessionY = None"
    by (simp_all add: sessionX_def sessionY_def)
  show ?thesis
    using occupancy_accounting [of "[CheckIn 0 0 ''r1'' None ''ST-001'', CheckIn 60000 60000 ''r2'' None ''ST-002'']"
        False True MOCK_STUDENTS "[]" twoSeats "[sessionX, sessionY]"]
      occupancy_accounting [of "[]" False True MOCK_STUDENTS "[]" oneSeat "[sessionX, sessionY]"]
      occupancy_accounting [of "[]" False True MOCK_STUDENTS "[]" noSeat "[sessionX, sessionY]"]
      occupancy_accounting [of "[]" False True MOCK_STUDENTS "[]" noSeat "[]"]
    by (simp add: demoStore_reached cap at st op del: run.simps step.simps)
qed

subsection \<open>Two ticks in the local mode\<close>

lemma soloStore_reached:
  "run [CheckIn 0 0 ''r1'' None ''ST-001''] (initStore True True MOCK_STUDENTS []) = soloStore"
  by (simp add: handleCheckIn_def initStore_def MOCK_STUDENTS_def show_int_def show_nat.simps
        soloStore_def demoStore_def sessionX_def Let_def)

lemma calm_alert:
  "sendOverdueAlert True (notifEnv (calmWorld t) pid) patronX d ''bhfnmtclibrary@gmail.com''
     = ([BrowserNotification
           (''John Doe (ST-001) has been in the library for '' @ show_int (Math_floor (of_int d / 60))
              @ ''h '' @ show_int (js_rem d 60) @ ''m.'')
           ''https://picsum.photos/seed/john/200'',
         EdgeFunctionInvoke ''John Doe'' ''ST-001'' d ''bhfnmtclibrary@gmail.com'',
         ConsoleLog], Inr ())"
  by (simp add: sendOverdueAlert_def browserNotification_def emailNotification_def calmWorld_def
        patronX_def or_default_def)

text \<open>
  Claim C3, evaluated. Demo mode with the remote store configured but not in use,
  default settings (threshold 180 minutes), the first patron checked in at time 0. The
  tick at 181 minutes dispatches the alert and leaves the store as it was, so
  \<open>alertTriggered\<close> of the session is still unset, and the tick at 182 minutes
  dispatches the alert for the same session again.
\<close>

theorem demo_ticks_alert_twice:
  "monitor (calmWorld 10860000) DEFAULT_SETTINGS 10860000 soloStore
     = Completed soloStore
         [Alert sessionX patronX 181 ''bhfnmtclibrary@gmail.com''
            [BrowserNotification ''John Doe (ST-001) has been in the library for 3h 1m.''
               ''https://picsum.photos/seed/john/200'',
             EdgeFunctionInvoke ''John Doe'' ''ST-001'' 181 ''bhfnmtclibrary@gmail.com'',
             ConsoleLog]]
   \<and> map alertTriggered (activeSessions (store_of (monitor (calmWorld 10860000) DEFAULT_SETTINGS 10860000 soloStore)))
       = [None]
   \<and> monitor (calmWorld 10920000) DEFAULT_SETTINGS 10920000
        (store_of (monitor (calmWorld 10860000) DEFAULT_SETTINGS 10860000 soloStore))
     = Completed soloStore
         [Alert sessionX patronX 182 ''bhfnmtclibrary@gmail.com''
            [BrowserNotification ''John Doe (ST-001) has been in the library for 3h 2m.''
               ''https://picsum.photos/seed/john/200'',
             EdgeFunctionInvoke ''John Doe'' ''ST-001'' 182 ''bhfnmtclibrary@gmail.com'',
             ConsoleLog]]"
proof -
  have cfg: "\<not> autoCheckoutEnabled DEFAULT_SETTINGS" "enabled (notifications DEFAULT_SETTINGS)"
    "thresholdMinutes (notifications DEFAULT_SETTINGS) = 180"
    "email (notifications DEFAULT_SETTINGS) = ''bhfnmtclibrary@gmail.com''"
    by (simp_all add: DEFAULT_SETTINGS_def)
  have st: "activeSessions soloStore = [sessionX]" "patrons soloStore = MOCK_STUDENTS"
    "demoMode soloStore" "isSupabaseConfigured soloStore"
    by (simp_all add: soloStore_def demoStore_def)
  have x: "checkIn sessionX = 0" "alertTriggered sessionX = None" "studentId sessionX = ''ST-001''"
    by (simp_all add: sessionX_def)
  have p: "find (\<lambda>p. id_patron p = ''ST-001'') MOCK_STUDENTS = Some patronX"
    by (simp add: MOCK_STUDENTS_def patronX_def)
  have sh: "show_int 3 = ''3''" "show_int 1 = ''1''" "show_int 2 = ''2''"
    by (simp_all add: show_int_def show_nat.simps)
  have fl: "\<lfloor>181 / 60 :: rat\<rfloor> = 3" "\<lfloor>91 / 30 :: rat\<rfloor> = 3"
    by (simp_all add: floor_eq_iff)
  have rem: "js_rem 181 60 = 1" "js_rem 182 60 = 2"
    by (simp_all add: js_rem_def)
  have t1: "monitor (calmWorld 10860000) DEFAULT_SETTINGS 10860000 soloStore
     = Completed soloStore
         [Alert sessionX patronX 181 ''bhfnmtclibrary@gmail.com''
            [BrowserNotification ''John Doe (ST-001) has been in the library for 3h 1m.''
               ''https://picsum.photos/seed/john/200'',
             EdgeFunctionInvoke ''John Doe'' ''ST-001'' 181 ''bhfnmtclibrary@gmail.com'',
             ConsoleLog]]"
    by (simp add: monitor_def monitor_loop.simps processSession_def cfg st x p truthy_def
          Math_floor_def calm_alert fl sh rem)
  have t2: "monitor (calmWorld 10920000) DEFAULT_SETTINGS 10920000 soloStore
     = Completed soloStore
         [Alert sessionX patronX 182 ''bhfnmtclibrary@gmail.com''
            [BrowserNotification ''John Doe (ST-001) has been in the library for 3h 2m.''
               ''https://picsum.photos/seed/john/200'',
             EdgeFunctionInvoke ''John Doe'' ''ST-001'' 182 ''bhfnmtclibrary@gmail.com'',
             ConsoleLog]]"
    by (simp add: monitor_def monitor_loop.simps processSession_def cfg st x p truthy_def
          Math_floor_def calm_alert fl sh rem)
  show ?thesis by (simp add: t1 t2 st x)
qed


text \<open>
  The gate itself holds in both modes: no tick dispatches for a session whose
  \<open>alertTriggered\<close> is true. In the connected mode the tick sets the flag of the remote
  row, and after a resynchronisation the next tick is silent.
\<close>

lemma flagged_never_dispatched:
  "a \<in> set (alerts_of (monitor w cfg now st)) \<Longrightarrow> alertTriggered (alert_session a) \<noteq> Some True"
  using monitor_alert_due [of a w cfg now st] by (auto simp: alertDue_def truthy_def)

lemma connected_ticks_alert_once:
  "map alert_session (alerts_of (monitor (calmWorld 10860000) DEFAULT_SETTINGS 10860000 cloudStore))
     = [cloudSessionX]
   \<and> remote (store_of (monitor (calmWorld 10860000) DEFAULT_SETTINGS 10860000 cloudStore))
       = [rowX\<lparr>alert_triggered := Some True\<rparr>]
   \<and> alerts_of (monitor (calmWorld 10920000) DEFAULT_SETTINGS 10920000
        (fetchData 0 None (store_of (monitor (calmWorld 10860000) DEFAULT_SETTINGS 10860000 cloudStore))))
       = []"
proof -
  have cfg: "\<not> autoCheckoutEnabled DEFAULT_SETTINGS" "enabled (notifications DEFAULT_SETTINGS)"
    "thresholdMinutes (notifications DEFAULT_SETTINGS) = 180"
    by (simp_all add: DEFAULT_SETTINGS_def)
  have st: "activeSessions cloudStore = [cloudSessionX]" "patrons cloudStore = MOCK_STUDENTS"
    "\<not> demoMode cloudStore" "isSupabaseConfigured cloudStore" "remote cloudStore = [rowX]"
    by (simp_all add: cloudStore_def)
  have x: "checkIn cloudSessionX = 0" "alertTriggered cloudSessionX = Some False"
    "studentId cloudSessionX = ''ST-001''" "id_session cloudSessionX = ''row-1''"
    by (simp_all add: cloudSessionX_def)
  have rw: "id_row rowX = ''row-1''" "check_out rowX = None"
    by (simp_all add: rowX_def)
  have p: "find (\<lambda>p. id_patron p = ''ST-001'') MOCK_STUDENTS = Some patronX"
    by (simp add: MOCK_STUDENTS_def patronX_def)
  have ad: "\<not> autoCheckoutDue DEFAULT_SETTINGS 10860000 cloudSessionX"
    "alertDue DEFAULT_SETTINGS 10860000 cloudSessionX"
    by (simp_all add: autoCheckoutDue_def alertDue_def elapsedMinutes_def cfg x truthy_def)
  have fe: "flagError (calmWorld 10860000) ''row-1'' = None" by (simp add: calmWorld_def)
  have t1: "store_of (monitor (calmWorld 10860000) DEFAULT_SETTINGS 10860000 cloudStore)
              = cloudStore\<lparr>remote := [rowX\<lparr>alert_triggered := Some True\<rparr>]\<rparr>"
    by (simp add: monitor_def monitor_loop_Cons processSession_other ad st x p fe remote_flag_def rw)
  have a1: "map alert_session (alerts_of (monitor (calmWorld 10860000) DEFAULT_SETTINGS 10860000 cloudStore))
     = [cloudSessionX]"
    by (simp add: monitor_alerts st alertsFor_def ad x p)
  have at: "activeSessions (fetchData 0 None (cloudStore\<lparr>remote := [rowX\<lparr>alert_triggered := Some True\<rparr>]\<rparr>))
              = [cloudSessionX\<lparr>alertTriggered := Some True\<rparr>]"
    by (simp add: fetchData_def st rw active_of_row_def cloudSessionX_def rowX_def)
  have a2: "alerts_of (monitor (calmWorld 10920000) DEFAULT_SETTINGS 10920000
        (fetchData 0 None (cloudStore\<lparr>remote := [rowX\<lparr>alert_triggered := Some True\<rparr>]\<rparr>))) = []"
    by (simp add: monitor_alerts at alertsFor_def alertDue_def truthy_def)
  show ?thesis by (simp add: t1 a1 a2)
qed

subsection \<open>One active session for each patron\<close>

lemma open_rows_close:
  "open_rows (remote_close sid t d n rows) = filter (\<lambda>r. id_row r \<noteq> sid) (open_rows rows)"
  by (simp add: open_rows_def open_after_close)

lemma open_rows_flag:
  "map patron_id (open_rows (remote_flag sid rows)) = map patron_id (open_rows rows)"
  by (induction rows) (simp_all add: open_rows_def remote_flag_def)

lemma distinct_open_handleCheckOut:
  assumes "distinct (map patron_id (open_rows (remote st)))"
  shows "distinct (map patron_id (open_rows (remote (handleCheckOut t e sid n st))))"
  using assms handleCheckOut_remote [of t e sid n st]
  by (auto simp: open_rows_close distinct_map_filter)

lemma distinct_open_monitor:
  assumes "distinct (map patron_id (open_rows (remote st)))"
  shows "distinct (map patron_id (open_rows (remote (store_of (monitor w cfg now st)))))"
  using assms
proof (rule monitor_invariant)
  fix st' :: Store and t e sid n
  assume "distinct (map patron_id (open_rows (remote st')))"
  then show "distinct (map patron_id (open_rows (remote (handleCheckOut t e sid n st'))))"
    by (rule distinct_open_handleCheckOut)
next
  fix st' :: Store and sid
  assume "distinct (map patron_id (open_rows (remote st')))"
  then show "distinct (map patron_id (open_rows (remote (st'\<lparr>remote := remote_flag sid (remote st')\<rparr>))))"
    by (simp add: open_rows_flag)
qed

lemma distinct_filter_conj:
  "distinct (map f (filter Q xs)) \<Longrightarrow> distinct (map f (filter (\<lambda>x. P x \<and> Q x) xs))"
proof -
  have "filter (\<lambda>x. P x \<and> Q x) xs = filter P (filter Q xs)"
    by (induction xs) simp_all
  then show "distinct (map f (filter Q xs)) \<Longrightarrow> distinct (map f (filter (\<lambda>x. P x \<and> Q x) xs))"
    by (simp only: distinct_map_filter)
qed

lemma distinct_active_handleCheckOut:
  assumes "distinct (map studentId (filter (\<lambda>s. checkOut s = None) (activeSessions st)))"
  shows "distinct (map studentId (filter (\<lambda>s. checkOut s = None)
           (activeSessions (handleCheckOut t e sid n st))))"
  using assms
  by (cases "local_mode st")
     (simp_all add: handleCheckOut_local_active handleCheckOut_connected_active distinct_filter_conj)

lemma distinct_active_monitor:
  assumes "distinct (map studentId (filter (\<lambda>s. checkOut s = None) (activeSessions st)))"
  shows "distinct (map studentId (filter (\<lambda>s. checkOut s = None)
           (activeSessions (store_of (monitor w cfg now st)))))"
  using assms
  by (cases "local_mode st") (simp_all add: monitor_active distinct_filter_conj)

lemma handleCheckIn_local:
  "local_mode st \<Longrightarrow> \<not> list_ex (\<lambda>s. studentId s = p) (activeSessions st) \<Longrightarrow>
   handleCheckIn now dn rid ie p st
     = st\<lparr>activeSessions := activeSessions st @
             [\<lparr>id_session = ''local-'' @ show_int dn, studentId = p,
               studentName = map_option name (find (\<lambda>s. id_patron s = p) (patrons st)),
               checkIn = now, checkOut = None, duration = None, notes_session = None,
               alertTriggered = None\<rparr>],
           todaySessions := todaySessions st @
             [\<lparr>id_session = ''local-'' @ show_int dn, studentId = p,
               studentName = map_option name (find (\<lambda>s. id_patron s = p) (patrons st)),
               checkIn = now, checkOut = None, duration = None, notes_session = None,
               alertTriggered = None\<rparr>]\<rparr>"
  by (auto simp: handleCheckIn_def local_mode_def Let_def)

lemma handleCheckIn_connected:
  "\<not> local_mode st \<Longrightarrow> \<not> list_ex (\<lambda>s. studentId s = p) (activeSessions st) \<Longrightarrow>
   handleCheckIn now dn rid ie p st =
     (case ie of
        Some e \<Rightarrow> st\<lparr>syncStatus := error, syncError := Some e\<rparr>
      | None \<Rightarrow> st\<lparr>remote := remote st @
                    [\<lparr>id_row = rid, patron_id = p, check_in = now, check_out = None,
                      duration_row = None, notes_row = None, alert_triggered = Some False\<rparr>]\<rparr>)"
  by (auto simp: handleCheckIn_def local_mode_def)

lemma handleCheckIn_guard:
  "list_ex (\<lambda>s. studentId s = p) (activeSessions st) \<Longrightarrow> handleCheckIn now dn rid ie p st = st"
  by (simp add: handleCheckIn_def)

lemma one_active_handleCheckIn_local:
  assumes "local_mode st" and "one_active_per_patron st"
  shows "one_active_per_patron (handleCheckIn now dn rid ie p st)"
proof (cases "list_ex (\<lambda>s. studentId s = p) (activeSessions st)")
  case True
  then show ?thesis using assms(2) by (simp add: handleCheckIn_guard)
next
  case False
  note new = handleCheckIn_local [OF assms(1) False, of now dn rid ie]
  have "p \<notin> studentId ` set (filter (\<lambda>s. checkOut s = None) (activeSessions st))"
    using False by (auto simp: list_ex_iff)
  then show ?thesis
    using assms(2) new by (simp add: one_active_per_patron_def)
qed

lemma one_active_handleCheckIn_connected:
  assumes "\<not> local_mode st" and "in_sync st" and "one_active_per_patron st"
  shows "one_active_per_patron (handleCheckIn now dn rid ie p st)"
proof (cases "list_ex (\<lambda>s. studentId s = p) (activeSessions st)")
  case True
  then show ?thesis using assms(3) by (simp add: handleCheckIn_guard)
next
  case False
  have "map studentId (activeSessions st) = map patron_id (open_rows (remote st))"
    using assms(2) by (simp add: in_sync_def active_of_row_def)
  then have "p \<notin> set (map patron_id (open_rows (remote st)))"
    using False by (metis (mono_tags, lifting) image_iff list.set_map list_ex_iff)
  then have "p \<notin> patron_id ` set (open_rows (remote st))" by simp
  then show ?thesis
    using assms(1,3) False
    by (cases ie) (simp_all add: handleCheckIn_connected one_active_per_patron_def open_rows_def)
qed

lemma one_active_handleCheckOut:
  "one_active_per_patron st \<Longrightarrow> one_active_per_patron (handleCheckOut t e sid n st)"
  by (simp add: one_active_per_patron_def distinct_open_handleCheckOut distinct_active_handleCheckOut)

lemma one_active_monitor:
  "one_active_per_patron st \<Longrightarrow> one_active_per_patron (store_of (monitor w cfg now st))"
  by (simp add: one_active_per_patron_def distinct_open_monitor distinct_active_monitor)

lemma fetchData_local:
  "local_mode st \<Longrightarrow> activeSessions (fetchData sod fe st) = activeSessions st
                      \<and> remote (fetchData sod fe st) = remote st"
  by (simp add: fetchData_def local_mode_def)

lemma fetchData_connected:
  "\<not> local_mode st \<Longrightarrow> activeSessions (fetchData sod None st) = map active_of_row (open_rows (remote st))
                       \<and> remote (fetchData sod None st) = remote st"
  by (simp add: fetchData_def local_mode_def open_rows_def)

lemma step_local_mode [simp]: "local_mode (step op st) = local_mode st"
proof (cases op)
  case (CheckIn now dn rid ie p)
  then show ?thesis
    by (auto simp: handleCheckIn_def local_mode_def Let_def split: option.splits)
next
  case (CheckOut t e sid n)
  then show ?thesis by simp
next
  case (Tick w cfg now)
  have "local_mode (store_of (monitor w cfg now st)) = local_mode st"
    by (simp add: monitor_def Let_def processSession_store_local_mode)
  then show ?thesis using Tick by simp
next
  case (Fetch sod fe)
  then show ?thesis
    by (auto simp: fetchData_def local_mode_def split: option.splits)
qed

lemma fetchData_local_mode [simp]: "local_mode (fetchData sod fe st) = local_mode st"
  using step_local_mode [of "Fetch sod fe" st] by simp

lemma one_active_step_local:
  assumes "local_mode st" and "one_active_per_patron st"
  shows "one_active_per_patron (step op st)"
proof (cases op)
  case (CheckIn now dn rid ie p)
  then show ?thesis using assms by (simp add: one_active_handleCheckIn_local)
next
  case (CheckOut t e sid n)
  then show ?thesis using assms by (simp add: one_active_handleCheckOut)
next
  case (Tick w cfg now)
  then show ?thesis using assms by (simp add: one_active_monitor)
next
  case (Fetch sod fe)
  then show ?thesis using assms fetchData_local [of st sod fe]
    by (simp add: one_active_per_patron_def)
qed

lemma one_active_step_connected:
  assumes "\<not> local_mode st" and "in_sync st" and "one_active_per_patron st"
  shows "distinct (map patron_id (open_rows (remote (step op st))))"
proof (cases op)
  case (CheckIn now dn rid ie p)
  then show ?thesis
    using one_active_handleCheckIn_connected [OF assms] by (simp add: one_active_per_patron_def)
next
  case (CheckOut t e sid n)
  then show ?thesis using assms(3) by (simp add: one_active_per_patron_def distinct_open_handleCheckOut)
next
  case (Tick w cfg now)
  then show ?thesis using assms(3) by (simp add: one_active_per_patron_def distinct_open_monitor)
next
  case (Fetch sod fe)
  then show ?thesis using assms(1,3)
    by (cases fe) (simp_all add: one_active_per_patron_def fetchData_def local_mode_def)
qed

lemma resync_establishes:
  assumes "\<not> local_mode st" and "distinct (map patron_id (open_rows (remote st)))"
  shows "one_active_per_patron (fetchData sod None st) \<and> in_sync (fetchData sod None st)"
proof -
  have 1: "filter (\<lambda>s. checkOut s = None) (map active_of_row rows) = map active_of_row rows" for rows
    by (induction rows) (simp_all add: active_of_row_def)
  have 2: "map studentId (map active_of_row rows) = map patron_id rows" for rows
    by (induction rows) (simp_all add: active_of_row_def)
  have a: "activeSessions (fetchData sod None st) = map active_of_row (open_rows (remote st))"
    and r: "remote (fetchData sod None st) = remote st"
    using fetchData_connected [OF assms(1), of sod] by simp_all
  have "distinct (map studentId (filter (\<lambda>s. checkOut s = None) (activeSessions (fetchData sod None st))))"
    unfolding a 1 2 by (rule assms(2))
  then show ?thesis
    using assms(2) by (simp add: one_active_per_patron_def in_sync_def a r)
qed

lemma run_local:
  "local_mode st \<Longrightarrow> one_active_per_patron st \<Longrightarrow> one_active_per_patron (run ops st)"
  by (induction ops arbitrary: st) (simp_all add: one_active_step_local)

lemma run_resynced_connected:
  "\<not> local_mode st \<Longrightarrow> in_sync st \<Longrightarrow> one_active_per_patron st \<Longrightarrow>
   one_active_per_patron (run_resynced rops st) \<and> in_sync (run_resynced rops st)"
proof (induction rops arbitrary: st)
  case Nil
  then show ?case by simp
next
  case (Cons a rops)
  obtain op sod where a: "a = (op, sod)" by (cases a)
  have con: "\<not> local_mode (step op st)" using Cons.prems(1) by simp
  have "distinct (map patron_id (open_rows (remote (step op st))))"
    using Cons.prems by (rule one_active_step_connected)
  then have "one_active_per_patron (fetchData sod None (step op st))
             \<and> in_sync (fetchData sod None (step op st))"
    using con by (intro resync_establishes)
  moreover have "\<not> local_mode (fetchData sod None (step op st))" using con by simp
  ultimately show ?case using Cons.IH [of "fetchData sod None (step op st)"] a by simp
qed

text \<open>
  Claim C1, evaluated. Connected mode, empty remote table. \<open>handleCheckIn\<close> compares with
  the local list, which the insert does not change. Two check-ins of patron ST-001 before
  any resynchronisation leave two open rows for the patron in the remote table, and the
  next resynchronisation puts two active sessions of the patron in the local list: the
  store then holds two active sessions for one patron.
\<close>

theorem connected_double_checkIn_two_active:
  "\<not> distinct (map patron_id (open_rows (remote
        (run [CheckIn 0 0 ''row-1'' None ''ST-001'', CheckIn 1000 1000 ''row-2'' None ''ST-001'']
           (initStore True False MOCK_STUDENTS [])))))
   \<and> \<not> one_active_per_patron
        (run [CheckIn 0 0 ''row-1'' None ''ST-001'', CheckIn 1000 1000 ''row-2'' None ''ST-001'',
              Fetch 0 None]
           (initStore True False MOCK_STUDENTS []))
   \<and> map studentId (activeSessions
        (run [CheckIn 0 0 ''row-1'' None ''ST-001'', CheckIn 1000 1000 ''row-2'' None ''ST-001'',
              Fetch 0 None]
           (initStore True False MOCK_STUDENTS [])))
       = [''ST-001'', ''ST-001'']"
  by (simp add: handleCheckIn_def initStore_def fetchData_def open_rows_def one_active_per_patron_def
        active_of_row_def)

text \<open>
  What the guard does give. From a store with at most one active session for each patron,
  every run in the local mode ends in such a store, the local branch of \<open>handleCheckIn\<close>
  adding the session to the list that the guard reads; and so does, in the connected
  mode, every run that starts in sync and in which each operation is followed by a
  successful resynchronisation.
\<close>

lemma one_active_per_patron_settled:
  assumes "one_active_per_patron st"
  shows "(local_mode st \<longrightarrow> one_active_per_patron (run ops st))
       \<and> (\<not> local_mode st \<and> in_sync st \<longrightarrow> one_active_per_patron (run_resynced rops st))"
  using assms run_local run_resynced_connected by blast

end
